theory Spec2Isabelle
  imports Main "HOL-Library.Sublist"
begin

section \<open>Data model of package istio (istio/istio.go)\<close>

text \<open>
  A Go \<open>error\<close> value. The package's own errors are declared in istio/error.go, the
  others come from collaborators; each is kept as a symbolic value. An error that a
  collaborator returns is either a meshkit error (\<open>Meshkit\<close>) or an error of some other
  type (\<open>External\<close>); \<open>StdError\<close> is \<open>errors.New\<close> of the standard library and
  \<open>Merged\<close> the result of \<open>mergeErrors\<close>. The text of an error (its \<open>Error()\<close>
  method) and its code, cause and remedy are read through functions that the caller of
  the model supplies.
\<close>

datatype error =
    Meshkit string
  | External string
  | StdError string
  | ErrFetchIstioVersions
  | ErrOpInvalid
  | ErrParseOAMComponent
  | ErrParseOAMConfig
  | ErrIstioVet error
  | ErrProcessOAM error
  | Merged string

text \<open>
  \<open>models.Kubeconfig\<close>: three scalars and four collections. The collections are
  opaque values of type \<open>'o\<close>.
\<close>

record 'o Kubeconfig =
  Kind :: string
  APIVersion :: string
  CurrentContext :: string
  Preferences :: 'o
  Clusters :: 'o
  Users :: 'o
  Contexts :: 'o

text \<open>
  The \<open>KubeconfigHandler\<close> (interface \<open>meshkitCfg.Handler\<close>) over a handler state
  \<open>'h\<close>: \<open>SetKey\<close> returns nothing, \<open>SetObject\<close> returns an error or nil, and
  both may change the handler.
\<close>

record ('h, 'o) Handler =
  SetKey :: "string \<Rightarrow> string \<Rightarrow> 'h \<Rightarrow> 'h"
  SetObject :: "string \<Rightarrow> 'o \<Rightarrow> 'h \<Rightarrow> error option \<times> 'h"

section \<open>CreateKubeconfigs\<close>

text \<open>
  Modelled from the spec: \<open>mergeErrors\<close>, a helper of package istio that is declared
  outside istio/istio.go. The spec: the ingestor "returns a single aggregated failure
  (concatenation of all sub-errors)" and "aggregate errors preserve all constituent
  messages (never only the first)". The aggregated error carries as its text the texts of
  the sub-errors, one after the other; \<open>txt\<close> is the \<open>Error()\<close> method.
\<close>

definition mergeErrors :: "(error \<Rightarrow> string) \<Rightarrow> error list \<Rightarrow> error" where
  "mergeErrors txt errs = Merged (concat (map txt errs))"

text \<open>
  Lines 264 to 290: the body of the loop for a payload that parsed. The three scalar keys
  are set first; each collection is stored in turn and the first failure ends the body
  (\<open>continue\<close>) with that error.
\<close>

definition merge_kubeconfig ::
  "('h, 'o) Handler \<Rightarrow> 'o Kubeconfig \<Rightarrow> 'h \<Rightarrow> error option \<times> 'h" where
  "merge_kubeconfig K kconfig h =
     (let h1 = SetKey K ''kind'' (Kind kconfig) h;
          h2 = SetKey K ''apiVersion'' (APIVersion kconfig) h1;
          h3 = SetKey K ''current-context'' (CurrentContext kconfig) h2
      in case SetObject K ''preferences'' (Preferences kconfig) h3 of
           (Some err, h4) \<Rightarrow> (Some err, h4)
         | (None, h4) \<Rightarrow>
      (case SetObject K ''clusters'' (Clusters kconfig) h4 of
           (Some err, h5) \<Rightarrow> (Some err, h5)
         | (None, h5) \<Rightarrow>
      (case SetObject K ''users'' (Users kconfig) h5 of
           (Some err, h6) \<Rightarrow> (Some err, h6)
         | (None, h6) \<Rightarrow>
      (case SetObject K ''contexts'' (Contexts kconfig) h6 of
           (Some err, h7) \<Rightarrow> (Some err, h7)
         | (None, h7) \<Rightarrow> (None, h7)))))"

text \<open>
  The loop of lines 256 to 291, with the handler and the slice \<open>errs\<close> as its state.
  \<open>Unmarshal\<close> is \<open>yaml.Unmarshal\<close> into a fresh \<open>models.Kubeconfig\<close>.
\<close>

fun CreateKubeconfigs_loop ::
  "('h, 'o) Handler \<Rightarrow> (string \<Rightarrow> error + 'o Kubeconfig) \<Rightarrow> string list \<Rightarrow>
     'h \<Rightarrow> error list \<Rightarrow> 'h \<times> error list" where
  "CreateKubeconfigs_loop K Unmarshal [] h errs = (h, errs)"
| "CreateKubeconfigs_loop K Unmarshal (kubeconfig # rest) h errs =
     (case Unmarshal kubeconfig of
        Inl err \<Rightarrow> CreateKubeconfigs_loop K Unmarshal rest h (errs @ [err])
      | Inr kconfig \<Rightarrow>
          (case merge_kubeconfig K kconfig h of
             (Some err, h') \<Rightarrow> CreateKubeconfigs_loop K Unmarshal rest h' (errs @ [err])
           | (None, h') \<Rightarrow> CreateKubeconfigs_loop K Unmarshal rest h' errs))"

definition CreateKubeconfigs ::
  "('h, 'o) Handler \<Rightarrow> (string \<Rightarrow> error + 'o Kubeconfig) \<Rightarrow> (error \<Rightarrow> string) \<Rightarrow>
     string list \<Rightarrow> 'h \<Rightarrow> error option \<times> 'h" where
  "CreateKubeconfigs K Unmarshal txt kubeconfigs h =
     (case CreateKubeconfigs_loop K Unmarshal kubeconfigs h [] of
        (h', errs) \<Rightarrow>
          if length errs = 0 then (None, h') else (Some (mergeErrors txt errs), h'))"

section \<open>ApplyOperation\<close>

text \<open>
  \<open>adapter.Operation\<close>, the catalog descriptor of one operation, and
  \<open>adapter.Operations\<close>, the catalog: a Go map from the operation name to a pointer to
  its descriptor, so a name that is absent from the catalog reads as nil.
  \<open>AdditionalProperties\<close> is a Go map of strings; a missing key reads as the empty string.
\<close>

record Operation =
  Description :: string
  Versions :: "string list"
  Templates :: "string list"
  AdditionalProperties :: "string \<rightharpoonup> string"

type_synonym Operations = "string \<rightharpoonup> Operation"

definition property :: "Operation \<Rightarrow> string \<Rightarrow> string" where
  "property d k = (case AdditionalProperties d k of None \<Rightarrow> [] | Some v \<Rightarrow> v)"

text \<open>\<open>adapter.OperationRequest\<close>, with the fields that ApplyOperation reads.\<close>

record OperationRequest =
  OperationName :: string
  Namespace :: string
  CustomBody :: string
  IsDeleteOperation :: bool
  OperationID :: string
  K8sConfigs :: "string list"
  Version :: string

text \<open>
  \<open>meshes.EventsResponse\<close>. \<open>meshes.EventType\<close> is a protobuf enumeration over
  int32 whose zero value is INFO.
\<close>

datatype EventType = EventType_INFO | EventType_WARN | EventType_ERROR | EventType_other int

record EventsResponse =
  EventType :: EventType
  Summary :: string
  Details :: string
  OperationId :: string
  ProbableCause :: string
  SuggestedRemediation :: string
  ErrorCode :: string
  Component :: string
  ComponentName :: string

text \<open>
  \<open>adapter.SMITestOptions\<close> as ApplyOperation fills it (\<open>Ctx\<close> is always
  \<open>context.TODO()\<close> and is left out); the two maps are lists of pairs.
\<close>

record SMITestOptions =
  SMI_OperationID :: string
  SMI_Labels :: "(string \<times> string) list"
  SMI_Namespace :: string
  SMI_Manifest :: string
  SMI_Annotations :: "(string \<times> string) list"

text \<open>
  The string constants that ApplyOperation names and that are declared outside
  istio/istio.go: the operation names of \<open>internalconfig\<close> and \<open>common\<close>, the keys of
  the additional properties, the words of package \<open>status\<close> and the two entries of
  \<open>internalconfig.ServerConfig\<close>. Their values are parameters of the model.
\<close>

record constants =
  IstioOperation :: string
  BookInfoOperation :: string
  HTTPBinOperation :: string
  ImageHubOperation :: string
  EmojiVotoOperation :: string
  SmiConformanceOperation :: string
  DenyAllPolicyOperation :: string
  StrictMTLSPolicyOperation :: string
  MutualMTLSPolicyOperation :: string
  DisableMTLSPolicyOperation :: string
  CustomOperation :: string
  LabelNamespace :: string
  PrometheusAddon :: string
  GrafanaAddon :: string
  KialiAddon :: string
  JaegerAddon :: string
  ZipkinAddon :: string
  IstioVetOperation :: string
  EnvoyFilterOperation :: string
  ServiceName :: string
  ServicePatchFile :: string
  FilterPatchFile :: string
  status_Deploying :: string
  status_Running :: string
  status_Completed :: string
  status_Deployed :: string
  ServerConfig_type :: string
  ServerConfig_name :: string

text \<open>
  The collaborators of the tasks: the methods of the adapter that do the work on the
  cluster, and the accessors of an error (\<open>err.Error()\<close>, \<open>errors.GetCode\<close>,
  \<open>errors.GetCause\<close>, \<open>errors.GetRemedy\<close>). A Go result \<open>(string, error)\<close> is a
  pair whose second component is \<open>None\<close> for nil. \<open>RunVet\<close> gives the records that
  the producer sends on the channel before it closes it.
\<close>

record collaborators =
  installIstio :: "bool \<Rightarrow> bool \<Rightarrow> string \<Rightarrow> string \<Rightarrow> string \<Rightarrow> string list \<Rightarrow> string \<times> error option"
  installSampleApp :: "string \<Rightarrow> bool \<Rightarrow> string list \<Rightarrow> string list \<Rightarrow> string \<times> error option"
  RunSMITest :: "SMITestOptions \<Rightarrow> error option"
  applyPolicy :: "string \<Rightarrow> bool \<Rightarrow> string list \<Rightarrow> string list \<Rightarrow> string \<times> error option"
  applyCustomOperation :: "string \<Rightarrow> string \<Rightarrow> bool \<Rightarrow> string list \<Rightarrow> string \<times> error option"
  LoadNamespaceToMesh :: "string \<Rightarrow> bool \<Rightarrow> string list \<Rightarrow> error option"
  installAddon :: "string \<Rightarrow> bool \<Rightarrow> string \<Rightarrow> string list \<Rightarrow> string list \<Rightarrow> string list \<Rightarrow> string \<times> error option"
  RunVet :: "string list \<Rightarrow> EventsResponse list"
  patchWithEnvoyFilter :: "string \<Rightarrow> bool \<Rightarrow> string \<Rightarrow> string list \<Rightarrow> string \<Rightarrow> string list \<Rightarrow> string \<times> error option"
  Error_text :: "error \<Rightarrow> string"
  GetCode :: "error \<Rightarrow> string"
  GetCause :: "error \<Rightarrow> string"
  GetRemedy :: "error \<Rightarrow> string"

text \<open>
  What a task does, in order: the calls to the collaborators with their arguments, the
  records handed to the sink (\<open>StreamInfo\<close>, \<open>StreamWarn\<close>, \<open>StreamErr\<close> of the
  embedded \<open>adapter.Adapter\<close>) and the log lines.
\<close>

datatype effect =
    Call_installIstio bool bool string string string "string list"
  | Call_installSampleApp string bool "string list" "string list"
  | Call_RunSMITest SMITestOptions
  | Call_applyPolicy string bool "string list" "string list"
  | Call_applyCustomOperation string string bool "string list"
  | Call_LoadNamespaceToMesh string bool "string list"
  | Call_installAddon string bool string "string list" "string list" "string list"
  | Call_RunVet "string list"
  | Call_patchWithEnvoyFilter string bool string "string list" string "string list"
  | StreamInfo EventsResponse
  | StreamWarn EventsResponse error
  | StreamErr EventsResponse error
  | Log_Info string

text \<open>
  A task runs to its end, or panics (a nil descriptor, an empty template list, an error
  accessor of meshkit on an error of another type) after the effects it has made.
\<close>

datatype outcome = Completed "effect list" | Panicked "effect list"

text \<open>
  The five assignments that every handler makes to its record before \<open>StreamErr\<close>.
\<close>

definition error_record :: "collaborators \<Rightarrow> EventsResponse \<Rightarrow> string \<Rightarrow> error \<Rightarrow> EventsResponse" where
  "error_record L ee summary err =
     ee\<lparr>Summary := summary, Details := Error_text L err, ErrorCode := GetCode L err,
        ProbableCause := GetCause L err, SuggestedRemediation := GetRemedy L err\<rparr>"

text \<open>
  \<open>errors.GetCode\<close>, \<open>errors.GetCause\<close> and \<open>errors.GetRemedy\<close> of meshkit take
  the error to be a meshkit error and panic on any other: the precondition that the
  comment of line 76 names (\<open>Make sure that this is a meshkit error\<close>). The errors of
  istio/error.go are meshkit errors; those of the standard library's \<open>errors.New\<close>
  and of \<open>mergeErrors\<close> are not.
\<close>

fun is_meshkit :: "error \<Rightarrow> bool" where
  "is_meshkit (Meshkit s) = True"
| "is_meshkit (External s) = False"
| "is_meshkit (StdError s) = False"
| "is_meshkit (Merged s) = False"
| "is_meshkit ErrFetchIstioVersions = True"
| "is_meshkit ErrOpInvalid = True"
| "is_meshkit ErrParseOAMComponent = True"
| "is_meshkit ErrParseOAMConfig = True"
| "is_meshkit (ErrIstioVet e) = True"
| "is_meshkit (ErrProcessOAM e) = True"

text \<open>
  The branch \<open>if err != nil\<close> of a handler, after the calls \<open>calls\<close>: the record is
  filled and handed to \<open>StreamErr\<close>, or the goroutine panics in \<open>errors.GetCode\<close>
  before anything reaches the sink.
\<close>

definition stream_error ::
  "collaborators \<Rightarrow> effect list \<Rightarrow> EventsResponse \<Rightarrow> string \<Rightarrow> error \<Rightarrow> outcome" where
  "stream_error L calls ee summary err =
     (if is_meshkit err
      then Completed (calls @ [StreamErr (error_record L ee summary err) err])
      else Panicked calls)"

text \<open>Lines 64 to 88: the task of \<open>internalconfig.IstioOperation\<close>.\<close>

definition task_Istio ::
  "collaborators \<Rightarrow> Operations \<Rightarrow> OperationRequest \<Rightarrow> string \<Rightarrow> string list \<Rightarrow>
     EventsResponse \<Rightarrow> outcome" where
  "task_Istio L operations opReq requestedVersion kubeConfigs ee =
     (case operations (OperationName opReq) of
        None \<Rightarrow> Panicked []
      | Some d \<Rightarrow>
          (case (if length (Versions d) = 0 then ([], [], [], Some ErrFetchIstioVersions)
                 else
                   (let version0 = Versions d ! (length (Versions d) - 1);
                        version = (if requestedVersion \<in> set (Versions d) then requestedVersion
                                   else version0)
                    in case installIstio L (IsDeleteOperation opReq) False version
                              (Namespace opReq) ''default'' kubeConfigs of
                         (stat, err) \<Rightarrow>
                           ([Call_installIstio (IsDeleteOperation opReq) False version
                               (Namespace opReq) ''default'' kubeConfigs], stat, version, err)))
           of (calls, stat, version, err) \<Rightarrow>
             (case err of
                Some e \<Rightarrow>
                  stream_error L calls ee
                    (''Error while '' @ stat @ '' Istio service mesh '' @ version) e
              | None \<Rightarrow>
                  Completed (calls @
                    [StreamInfo (ee\<lparr>Summary :=
                         ''Istio service mesh '' @ version @ '' '' @ stat @ '' successfully'',
                       Details :=
                         ''The Istio service mesh '' @ version @ '' is now '' @ stat @ ''.''\<rparr>)]))))"

text \<open>Lines 90 to 105: the task of the four sample applications.\<close>

definition task_SampleApp ::
  "constants \<Rightarrow> collaborators \<Rightarrow> Operations \<Rightarrow> OperationRequest \<Rightarrow> string list \<Rightarrow>
     EventsResponse \<Rightarrow> outcome" where
  "task_SampleApp C L operations opReq kubeConfigs ee =
     (case operations (OperationName opReq) of
        None \<Rightarrow> Panicked []
      | Some d \<Rightarrow>
          (let appName = property d (ServiceName C)
           in case installSampleApp L (Namespace opReq) (IsDeleteOperation opReq) (Templates d)
                     kubeConfigs of
                (stat, err) \<Rightarrow>
                  (let call = Call_installSampleApp (Namespace opReq) (IsDeleteOperation opReq)
                                (Templates d) kubeConfigs
                   in case err of
                        Some e \<Rightarrow>
                          stream_error L [call] ee
                              (''Error while '' @ stat @ '' Istio service mesh'') e
                      | None \<Rightarrow>
                          Completed [call,
                            StreamInfo (ee\<lparr>Summary :=
                                appName @ '' application '' @ stat @ '' successfully'',
                              Details :=
                                ''The '' @ appName @ '' application is now '' @ stat @ ''.''\<rparr>)])))"

text \<open>
  Lines 107 to 131: the task of \<open>common.SmiConformanceOperation\<close>. The options are
  built before the call, and \<open>Templates[0]\<close> panics on an empty list.
\<close>

definition task_SmiConformance ::
  "constants \<Rightarrow> collaborators \<Rightarrow> Operations \<Rightarrow> OperationRequest \<Rightarrow> EventsResponse \<Rightarrow> outcome" where
  "task_SmiConformance C L operations opReq ee =
     (case operations (OperationName opReq) of
        None \<Rightarrow> Panicked []
      | Some d \<Rightarrow>
          (let name = Description d
           in case Templates d of
                [] \<Rightarrow> Panicked []
              | t # ts \<Rightarrow>
                  (let opts = \<lparr>SMI_OperationID = OperationId ee,
                               SMI_Labels = [(''istio-injection'', ''enabled'')],
                               SMI_Namespace = ''meshery'',
                               SMI_Manifest = t,
                               SMI_Annotations = []\<rparr>
                   in case RunSMITest L opts of
                        Some e \<Rightarrow>
                          stream_error L [Call_RunSMITest opts] ee
                            (''Error while '' @ status_Running C @ '' '' @ name @ '' test'') e
                      | None \<Rightarrow>
                          Completed [Call_RunSMITest opts,
                            StreamInfo (ee\<lparr>Summary :=
                                name @ '' test '' @ status_Completed C @ '' successfully'',
                              Details := []\<rparr>)])))"

text \<open>Lines 133 to 147: the task of the four policies.\<close>

definition task_Policy ::
  "constants \<Rightarrow> collaborators \<Rightarrow> Operations \<Rightarrow> OperationRequest \<Rightarrow> string list \<Rightarrow>
     EventsResponse \<Rightarrow> outcome" where
  "task_Policy C L operations opReq kubeConfigs ee =
     (case operations (OperationName opReq) of
        None \<Rightarrow> Panicked []
      | Some d \<Rightarrow>
          (case applyPolicy L (Namespace opReq) (IsDeleteOperation opReq) (Templates d)
                  kubeConfigs of
             (stat, err) \<Rightarrow>
               (let call = Call_applyPolicy (Namespace opReq) (IsDeleteOperation opReq)
                             (Templates d) kubeConfigs
                in case err of
                     Some e \<Rightarrow>
                       stream_error L [call] ee
                              (''Error while '' @ stat @ '' policy'') e
                   | None \<Rightarrow>
                       Completed [call,
                         StreamInfo (ee\<lparr>Summary :=
                             ''Policy '' @ status_Deployed C @ '' successfully'',
                           Details := []\<rparr>)])))"

text \<open>Lines 149 to 163: the task of \<open>common.CustomOperation\<close>.\<close>

definition task_Custom ::
  "constants \<Rightarrow> collaborators \<Rightarrow> OperationRequest \<Rightarrow> string list \<Rightarrow> EventsResponse \<Rightarrow> outcome" where
  "task_Custom C L opReq kubeConfigs ee =
     (case applyCustomOperation L (Namespace opReq) (CustomBody opReq) (IsDeleteOperation opReq)
             kubeConfigs of
        (stat, err) \<Rightarrow>
          (let call = Call_applyCustomOperation (Namespace opReq) (CustomBody opReq)
                        (IsDeleteOperation opReq) kubeConfigs
           in case err of
                Some e \<Rightarrow>
                  stream_error L [call] ee
                              (''Error while '' @ stat @ '' custom operation'') e
              | None \<Rightarrow>
                  Completed [call,
                    StreamInfo (ee\<lparr>Summary :=
                        ''Manifest '' @ status_Deployed C @ '' successfully'',
                      Details := []\<rparr>)]))"

text \<open>Lines 165 to 183: the task of \<open>internalconfig.LabelNamespace\<close>.\<close>

definition task_Label ::
  "collaborators \<Rightarrow> OperationRequest \<Rightarrow> string list \<Rightarrow> EventsResponse \<Rightarrow> outcome" where
  "task_Label L opReq kubeConfigs ee =
     (let err = LoadNamespaceToMesh L (Namespace opReq) (IsDeleteOperation opReq) kubeConfigs;
          call = Call_LoadNamespaceToMesh (Namespace opReq) (IsDeleteOperation opReq) kubeConfigs;
          operation = (if IsDeleteOperation opReq then ''removed'' else ''enabled'')
      in case err of
           Some e \<Rightarrow>
             stream_error L [call] ee
                              (''Error while labeling '' @ Namespace opReq) e
         | None \<Rightarrow>
             Completed [call,
               StreamInfo (ee\<lparr>Summary :=
                   ''Label updated on '' @ Namespace opReq @ '' namespace'',
                 Details :=
                   ''ISTIO-INJECTION label '' @ operation @ '' on '' @ Namespace opReq @
                   '' namespace''\<rparr>)])"

text \<open>Lines 185 to 208: the task of the five addons.\<close>

definition task_Addon ::
  "constants \<Rightarrow> collaborators \<Rightarrow> Operations \<Rightarrow> OperationRequest \<Rightarrow> string list \<Rightarrow>
     EventsResponse \<Rightarrow> outcome" where
  "task_Addon C L operations opReq kubeConfigs ee =
     (case operations (OperationName opReq) of
        None \<Rightarrow> Panicked []
      | Some d \<Rightarrow>
          (let svcname = property d (ServiceName C);
               patches = [] @ [property d (ServicePatchFile C)];
               err = snd (installAddon L (Namespace opReq) (IsDeleteOperation opReq) svcname
                            patches (Templates d) kubeConfigs);
               call = Call_installAddon (Namespace opReq) (IsDeleteOperation opReq) svcname
                        patches (Templates d) kubeConfigs;
               operation = (if IsDeleteOperation opReq then ''uninstall'' else ''install'')
           in case err of
                Some e \<Rightarrow>
                  stream_error L [call] ee
                              (''Error while '' @ operation @ ''ing '' @ OperationName opReq) e
              | None \<Rightarrow>
                  Completed [call,
                    StreamInfo (ee\<lparr>Summary :=
                        ''Successfully '' @ operation @ ''ed '' @ OperationName opReq,
                      Details :=
                        ''Successfully '' @ operation @ ''ed '' @ OperationName opReq @
                        '' from the '' @ Namespace opReq @ '' namespace''\<rparr>)]))"

text \<open>
  Lines 215 to 224: what the consumer does with one record of the feed.
\<close>

definition forward :: "EventsResponse \<Rightarrow> effect" where
  "forward msg =
     (case EventType msg of
        EventType_ERROR \<Rightarrow> StreamErr msg (ErrIstioVet (StdError (Details msg)))
      | EventType_WARN \<Rightarrow> StreamWarn msg (ErrIstioVet (StdError (Details msg)))
      | _ \<Rightarrow> StreamInfo msg)"

text \<open>The loop \<open>for msg := range responseChan\<close> over the records of the feed.\<close>

fun consume :: "EventsResponse list \<Rightarrow> effect list" where
  "consume [] = []"
| "consume (msg # feed) = forward msg # consume feed"

text \<open>Lines 210 to 227: the task of \<open>internalconfig.IstioVetOperation\<close>.\<close>

definition task_Vet :: "collaborators \<Rightarrow> string list \<Rightarrow> outcome" where
  "task_Vet L kubeConfigs =
     Completed (Call_RunVet kubeConfigs # consume (RunVet L kubeConfigs) @ [Log_Info ''Done''])"

text \<open>Lines 229 to 245: the task of \<open>internalconfig.EnvoyFilterOperation\<close>.\<close>

definition task_EnvoyFilter ::
  "constants \<Rightarrow> collaborators \<Rightarrow> Operations \<Rightarrow> OperationRequest \<Rightarrow> string list \<Rightarrow>
     EventsResponse \<Rightarrow> outcome" where
  "task_EnvoyFilter C L operations opReq kubeConfigs ee =
     (case operations (OperationName opReq) of
        None \<Rightarrow> Panicked []
      | Some d \<Rightarrow>
          (let appName = property d (ServiceName C);
               patchFile = property d (FilterPatchFile C)
           in case patchWithEnvoyFilter L (Namespace opReq) (IsDeleteOperation opReq) appName
                     (Templates d) patchFile kubeConfigs of
                (stat, err) \<Rightarrow>
                  (let call = Call_patchWithEnvoyFilter (Namespace opReq)
                                (IsDeleteOperation opReq) appName (Templates d) patchFile
                                kubeConfigs
                   in case err of
                        Some e \<Rightarrow>
                          stream_error L [call] ee
                              (''Error while '' @ stat @ '' '' @ appName @ '' application'') e
                      | None \<Rightarrow>
                          Completed [call,
                            StreamInfo (ee\<lparr>Summary :=
                                appName @ '' application '' @ stat @ '' successfully'',
                              Details :=
                                ''The '' @ appName @ '' application is now '' @ stat @ ''.''\<rparr>)])))"

text \<open>
  The cases of the switch of line 62, in the order of the source; \<open>None\<close> is the
  \<open>default\<close> case.
\<close>

datatype handler =
  Istio | SampleApp | SmiConformance | Policy | Custom | Label | Addon | Vet | EnvoyFilter

definition classify :: "constants \<Rightarrow> string \<Rightarrow> handler option" where
  "classify C name =
     (if name = IstioOperation C then Some Istio
      else if name = BookInfoOperation C \<or> name = HTTPBinOperation C \<or>
              name = ImageHubOperation C \<or> name = EmojiVotoOperation C then Some SampleApp
      else if name = SmiConformanceOperation C then Some SmiConformance
      else if name = DenyAllPolicyOperation C \<or> name = StrictMTLSPolicyOperation C \<or>
              name = MutualMTLSPolicyOperation C \<or> name = DisableMTLSPolicyOperation C
           then Some Policy
      else if name = CustomOperation C then Some Custom
      else if name = LabelNamespace C then Some Label
      else if name = PrometheusAddon C \<or> name = GrafanaAddon C \<or> name = KialiAddon C \<or>
              name = JaegerAddon C \<or> name = ZipkinAddon C then Some Addon
      else if name = IstioVetOperation C then Some Vet
      else if name = EnvoyFilterOperation C then Some EnvoyFilter
      else None)"

text \<open>
  A launched goroutine: the case it belongs to and the variables its closure captures
  (\<open>operations\<close>, \<open>opReq\<close>, \<open>requestedVersion\<close>, \<open>kubeConfigs\<close> and the record
  \<open>e\<close>).
\<close>

datatype task = Go handler Operations OperationRequest string "string list" EventsResponse

fun run_task :: "constants \<Rightarrow> collaborators \<Rightarrow> task \<Rightarrow> outcome" where
  "run_task C L (Go Istio operations opReq requestedVersion kubeConfigs ee) =
     task_Istio L operations opReq requestedVersion kubeConfigs ee"
| "run_task C L (Go SampleApp operations opReq requestedVersion kubeConfigs ee) =
     task_SampleApp C L operations opReq kubeConfigs ee"
| "run_task C L (Go SmiConformance operations opReq requestedVersion kubeConfigs ee) =
     task_SmiConformance C L operations opReq ee"
| "run_task C L (Go Policy operations opReq requestedVersion kubeConfigs ee) =
     task_Policy C L operations opReq kubeConfigs ee"
| "run_task C L (Go Custom operations opReq requestedVersion kubeConfigs ee) =
     task_Custom C L opReq kubeConfigs ee"
| "run_task C L (Go Label operations opReq requestedVersion kubeConfigs ee) =
     task_Label L opReq kubeConfigs ee"
| "run_task C L (Go Addon operations opReq requestedVersion kubeConfigs ee) =
     task_Addon C L operations opReq kubeConfigs ee"
| "run_task C L (Go Vet operations opReq requestedVersion kubeConfigs ee) =
     task_Vet L kubeConfigs"
| "run_task C L (Go EnvoyFilter operations opReq requestedVersion kubeConfigs ee) =
     task_EnvoyFilter C L operations opReq kubeConfigs ee"

text \<open>
  What a call of ApplyOperation leaves behind: the error it returns (\<open>None\<close> for nil),
  the goroutine it launched, the records it handed to the sink itself, and the
  kubeconfig handler.
\<close>

record 'h dispatch =
  returned :: "error option"
  launched :: "task option"
  pushed :: "effect list"
  kubeconfig_handler :: 'h

text \<open>
  Lines 55 to 61: the record \<open>e\<close> that every case starts from. The fields that the
  literal does not name have their zero values.
\<close>

definition initial_record :: "constants \<Rightarrow> OperationRequest \<Rightarrow> EventsResponse" where
  "initial_record C opReq =
     \<lparr>EventType = EventType_INFO,
      Summary = status_Deploying C,
      Details = ''Operation is not supported'',
      OperationId = OperationID opReq,
      ProbableCause = [],
      SuggestedRemediation = [],
      ErrorCode = [],
      Component = ServerConfig_type C,
      ComponentName = ServerConfig_name C\<rparr>"

text \<open>
  Lines 42 to 251. \<open>GetObject\<close> is the result of
  \<open>istio.Config.GetObject(adapter.OperationsKey, &operations)\<close>: an error, or the catalog.
\<close>

definition ApplyOperation ::
  "constants \<Rightarrow> ('h, 'o) Handler \<Rightarrow> (string \<Rightarrow> error + 'o Kubeconfig) \<Rightarrow> (error \<Rightarrow> string) \<Rightarrow>
     error + Operations \<Rightarrow> OperationRequest \<Rightarrow> 'h \<Rightarrow> 'h dispatch" where
  "ApplyOperation C K Unmarshal txt GetObject opReq h =
     (case CreateKubeconfigs K Unmarshal txt (K8sConfigs opReq) h of
        (Some err, h') \<Rightarrow>
          \<lparr>returned = Some err, launched = None, pushed = [], kubeconfig_handler = h'\<rparr>
      | (None, h') \<Rightarrow>
          (let kubeConfigs = K8sConfigs opReq;
               requestedVersion = Version opReq
           in case GetObject of
                Inl err \<Rightarrow>
                  \<lparr>returned = Some err, launched = None, pushed = [], kubeconfig_handler = h'\<rparr>
              | Inr operations \<Rightarrow>
                  (let e = initial_record C opReq
                   in case classify C (OperationName opReq) of
                        Some k \<Rightarrow>
                          \<lparr>returned = None,
                           launched = Some (Go k operations opReq requestedVersion kubeConfigs e),
                           pushed = [], kubeconfig_handler = h'\<rparr>
                      | None \<Rightarrow>
                          \<lparr>returned = None, launched = None,
                           pushed = [StreamErr e ErrOpInvalid], kubeconfig_handler = h'\<rparr>)))"

section \<open>ProcessOAM\<close>

text \<open>\<open>adapter.OAMRequest\<close>, with the fields that ProcessOAM reads.\<close>

record OAMRequest =
  DeleteOp :: bool
  OamComps :: "string list"
  OamConfig :: string
  OAM_K8sConfigs :: "string list"

text \<open>
  The collaborators of ProcessOAM, over components \<open>'c\<close> and configurations \<open>'g\<close>:
  the two parsers of package \<open>oam\<close> and the two handlers of the adapter. Each returns
  its value together with an error or nil.
\<close>

record ('c, 'g) oam_collaborators =
  ParseApplicationComponent :: "string \<Rightarrow> 'c \<times> error option"
  ParseApplicationConfiguration :: "string \<Rightarrow> 'g \<times> error option"
  HandleComponents :: "'c list \<Rightarrow> bool \<Rightarrow> string list \<Rightarrow> string \<times> error option"
  HandleApplicationConfiguration :: "'g \<Rightarrow> bool \<Rightarrow> string list \<Rightarrow> string \<times> error option"

text \<open>What ProcessOAM does, in order: calls to its collaborators and log lines.\<close>

datatype ('c, 'g) oam_effect =
    Call_ParseApplicationComponent string
  | Call_ParseApplicationConfiguration string
  | Call_HandleComponents "'c list" bool "string list"
  | Call_HandleApplicationConfiguration 'g bool "string list"
  | Log_Error error

text \<open>
  Lines 305 to 313: the loop over \<open>oamReq.OamComps\<close>, with the slice \<open>comps\<close> and the
  effects so far as its state.
\<close>

fun parse_components ::
  "('c, 'g) oam_collaborators \<Rightarrow> string list \<Rightarrow> 'c list \<Rightarrow> ('c, 'g) oam_effect list \<Rightarrow>
     'c list \<times> ('c, 'g) oam_effect list" where
  "parse_components M [] comps tr = (comps, tr)"
| "parse_components M (acomp # rest) comps tr =
     (case ParseApplicationComponent M acomp of
        (component, Some configErr) \<Rightarrow>
          parse_components M rest comps
            (tr @ [Call_ParseApplicationComponent acomp, Log_Error ErrParseOAMComponent])
      | (component, None) \<Rightarrow>
          parse_components M rest (comps @ [component]) (tr @ [Call_ParseApplicationComponent acomp]))"

text \<open>The line feed of the Go literal \<open>"\n"\<close>.\<close>

definition newline :: string where
  "newline = [CHR 0x0A]"

text \<open>
  What a call of ProcessOAM leaves behind: the message and the error it returns, its
  effects in order, and the kubeconfig handler.
\<close>

record ('h, 'c, 'g) oam_result =
  message :: string
  failure :: "error option"
  effects :: "('c, 'g) oam_effect list"
  oam_kubeconfig_handler :: 'h

text \<open>Lines 299 to 350.\<close>

definition ProcessOAM ::
  "('h, 'o) Handler \<Rightarrow> (string \<Rightarrow> error + 'o Kubeconfig) \<Rightarrow> (error \<Rightarrow> string) \<Rightarrow>
     ('c, 'g) oam_collaborators \<Rightarrow> OAMRequest \<Rightarrow> 'h \<Rightarrow> ('h, 'c, 'g) oam_result" where
  "ProcessOAM K Unmarshal txt M oamReq h =
     (case CreateKubeconfigs K Unmarshal txt (OAM_K8sConfigs oamReq) h of
        (Some err, h') \<Rightarrow>
          \<lparr>message = [], failure = Some err, effects = [], oam_kubeconfig_handler = h'\<rparr>
      | (None, h') \<Rightarrow>
          (let kubeconfigs = OAM_K8sConfigs oamReq
           in case parse_components M (OamComps oamReq) [] [] of
                (comps, tr1) \<Rightarrow>
           (case ParseApplicationConfiguration M (OamConfig oamReq) of
                (config, err) \<Rightarrow>
           (let tr2 = tr1 @ [Call_ParseApplicationConfiguration (OamConfig oamReq)] @
                        (case err of Some x \<Rightarrow> [Log_Error ErrParseOAMConfig] | None \<Rightarrow> [])
            in if DeleteOp oamReq then
                 (case HandleApplicationConfiguration M config (DeleteOp oamReq) kubeconfigs of
                    (msg2, appConfiguration) \<Rightarrow>
                 (let tr3 = tr2 @ [Call_HandleApplicationConfiguration config (DeleteOp oamReq)
                                     kubeconfigs]
                  in case appConfiguration of
                       Some e \<Rightarrow>
                         \<lparr>message = msg2, failure = Some (ErrProcessOAM e), effects = tr3,
                          oam_kubeconfig_handler = h'\<rparr>
                     | None \<Rightarrow>
                 (case HandleComponents M comps (DeleteOp oamReq) kubeconfigs of
                    (msg1, componentsErr) \<Rightarrow>
                 (let tr4 = tr3 @ [Call_HandleComponents comps (DeleteOp oamReq) kubeconfigs]
                  in case componentsErr of
                       Some e \<Rightarrow>
                         \<lparr>message = msg1 @ newline @ msg2, failure = Some (ErrProcessOAM e),
                          effects = tr4, oam_kubeconfig_handler = h'\<rparr>
                     | None \<Rightarrow>
                         \<lparr>message = msg1 @ newline @ msg2, failure = None,
                          effects = tr4, oam_kubeconfig_handler = h'\<rparr>))))
               else
                 (case HandleComponents M comps (DeleteOp oamReq) kubeconfigs of
                    (msg1, err1) \<Rightarrow>
                 (let tr3 = tr2 @ [Call_HandleComponents comps (DeleteOp oamReq) kubeconfigs]
                  in case err1 of
                       Some e \<Rightarrow>
                         \<lparr>message = msg1, failure = Some (ErrProcessOAM e), effects = tr3,
                          oam_kubeconfig_handler = h'\<rparr>
                     | None \<Rightarrow>
                 (case HandleApplicationConfiguration M config (DeleteOp oamReq) kubeconfigs of
                    (msg2, err2) \<Rightarrow>
                 (let tr4 = tr3 @ [Call_HandleApplicationConfiguration config (DeleteOp oamReq)
                                     kubeconfigs]
                  in case err2 of
                       Some e \<Rightarrow>
                         \<lparr>message = msg1 @ newline @ msg2, failure = Some (ErrProcessOAM e),
                          effects = tr4, oam_kubeconfig_handler = h'\<rparr>
                     | None \<Rightarrow>
                         \<lparr>message = msg1 @ newline @ msg2, failure = None,
                          effects = tr4, oam_kubeconfig_handler = h'\<rparr>))))))))"

section \<open>Observations used in the statements\<close>

text \<open>
  One payload of CreateKubeconfigs seen from a handler state: the error it adds to
  \<open>errs\<close> (a parse failure, or the failure of its merge), and the handler it leaves.
\<close>

definition payload_failure ::
  "('h, 'o) Handler \<Rightarrow> (string \<Rightarrow> error + 'o Kubeconfig) \<Rightarrow> 'h \<Rightarrow> string \<Rightarrow> error option" where
  "payload_failure K Unmarshal h p =
     (case Unmarshal p of
        Inl err \<Rightarrow> Some err
      | Inr kconfig \<Rightarrow> fst (merge_kubeconfig K kconfig h))"

definition payload_effect ::
  "('h, 'o) Handler \<Rightarrow> (string \<Rightarrow> error + 'o Kubeconfig) \<Rightarrow> 'h \<Rightarrow> string \<Rightarrow> 'h" where
  "payload_effect K Unmarshal h p =
     (case Unmarshal p of
        Inl err \<Rightarrow> h
      | Inr kconfig \<Rightarrow> snd (merge_kubeconfig K kconfig h))"

fun failures ::
  "('h, 'o) Handler \<Rightarrow> (string \<Rightarrow> error + 'o Kubeconfig) \<Rightarrow> 'h \<Rightarrow> string list \<Rightarrow> error list" where
  "failures K U h [] = []"
| "failures K U h (p # ps) =
     (case payload_failure K U h p of None \<Rightarrow> [] | Some e \<Rightarrow> [e]) @
     failures K U (payload_effect K U h p) ps"

text \<open>The handler after the three \<open>SetKey\<close> calls of lines 265 to 267.\<close>

definition scalars_set :: "('h, 'o) Handler \<Rightarrow> 'o Kubeconfig \<Rightarrow> 'h \<Rightarrow> 'h" where
  "scalars_set K kconfig h =
     SetKey K ''current-context'' (CurrentContext kconfig)
       (SetKey K ''apiVersion'' (APIVersion kconfig)
         (SetKey K ''kind'' (Kind kconfig) h))"

text \<open>The case labels of the switch of line 62.\<close>

definition case_labels :: "constants \<Rightarrow> string list" where
  "case_labels C =
     [IstioOperation C,
      BookInfoOperation C, HTTPBinOperation C, ImageHubOperation C, EmojiVotoOperation C,
      SmiConformanceOperation C,
      DenyAllPolicyOperation C, StrictMTLSPolicyOperation C, MutualMTLSPolicyOperation C,
      DisableMTLSPolicyOperation C,
      CustomOperation C,
      LabelNamespace C,
      PrometheusAddon C, GrafanaAddon C, KialiAddon C, JaegerAddon C, ZipkinAddon C,
      IstioVetOperation C,
      EnvoyFilterOperation C]"

text \<open>The effects of a task, whether it ran to its end or panicked.\<close>

fun effects_of :: "outcome \<Rightarrow> effect list" where
  "effects_of (Completed tr) = tr"
| "effects_of (Panicked tr) = tr"

text \<open>The effects that hand a record to the sink.\<close>

fun is_sink :: "effect \<Rightarrow> bool" where
  "is_sink (StreamInfo ev) = True"
| "is_sink (StreamWarn ev err) = True"
| "is_sink (StreamErr ev err) = True"
| "is_sink x = False"

text \<open>
  The error that a collaborator returns to the call recorded by an effect (\<open>None\<close> for
  nil, and for the effects that are no call of a collaborator returning an error).
\<close>

fun collaborator_result :: "collaborators \<Rightarrow> effect \<Rightarrow> error option" where
  "collaborator_result L (Call_installIstio del useBin version ns profile kc) =
     snd (installIstio L del useBin version ns profile kc)"
| "collaborator_result L (Call_installSampleApp ns del templates kc) =
     snd (installSampleApp L ns del templates kc)"
| "collaborator_result L (Call_RunSMITest opts) = RunSMITest L opts"
| "collaborator_result L (Call_applyPolicy ns del templates kc) =
     snd (applyPolicy L ns del templates kc)"
| "collaborator_result L (Call_applyCustomOperation ns body del kc) =
     snd (applyCustomOperation L ns body del kc)"
| "collaborator_result L (Call_LoadNamespaceToMesh ns del kc) = LoadNamespaceToMesh L ns del kc"
| "collaborator_result L (Call_installAddon ns del svc patches templates kc) =
     snd (installAddon L ns del svc patches templates kc)"
| "collaborator_result L (Call_patchWithEnvoyFilter ns del app templates patch kc) =
     snd (patchWithEnvoyFilter L ns del app templates patch kc)"
| "collaborator_result L x = None"

text \<open>The two handler calls of ProcessOAM among its effects.\<close>

fun is_handle :: "('c, 'g) oam_effect \<Rightarrow> bool" where
  "is_handle (Call_HandleComponents comps del kc) = True"
| "is_handle (Call_HandleApplicationConfiguration config del kc) = True"
| "is_handle x = False"

section \<open>Sample inputs for the concrete evaluations\<close>

text \<open>
  A kubeconfig handler that keeps its keys in a map and refuses the collection
  \<open>''corrupt''\<close>, leaving the map as it is.
\<close>

datatype stored = Scalar string | Object string

definition sample_handler :: "(string \<rightharpoonup> stored, string) Handler" where
  "sample_handler =
     \<lparr>SetKey = (\<lambda>k v s. s(k \<mapsto> Scalar v)),
      SetObject = (\<lambda>k ob s.
        if ob = ''corrupt'' then (Some (External (''cannot store '' @ k)), s)
        else (None, s(k \<mapsto> Object ob)))\<rparr>"

text \<open>
  A parser that knows three payloads: \<open>''one''\<close> and \<open>''two''\<close> are well formed,
  \<open>''half''\<close> parses but its clusters cannot be stored; anything else does not parse.
\<close>

definition sample_Unmarshal :: "string \<Rightarrow> error + string Kubeconfig" where
  "sample_Unmarshal p =
     (if p = ''one'' then
        Inr \<lparr>Kind = ''Config'', APIVersion = ''v1'', CurrentContext = ''ctx-one'',
             Preferences = ''prefs-one'', Clusters = ''clusters-one'', Users = ''users-one'',
             Contexts = ''contexts-one''\<rparr>
      else if p = ''two'' then
        Inr \<lparr>Kind = ''Config'', APIVersion = ''v1'', CurrentContext = ''ctx-two'',
             Preferences = ''prefs-two'', Clusters = ''clusters-two'', Users = ''users-two'',
             Contexts = ''contexts-two''\<rparr>
      else if p = ''half'' then
        Inr \<lparr>Kind = ''Config'', APIVersion = ''v2'', CurrentContext = ''ctx-half'',
             Preferences = ''prefs-half'', Clusters = ''corrupt'', Users = ''users-half'',
             Contexts = ''contexts-half''\<rparr>
      else Inl (External (''cannot parse '' @ p)))"

fun sample_text :: "error \<Rightarrow> string" where
  "sample_text (Meshkit s) = s"
| "sample_text (External s) = s"
| "sample_text (StdError s) = s"
| "sample_text (Merged s) = s"
| "sample_text e = ''error''"

definition sample_constants :: constants where
  "sample_constants =
     \<lparr>IstioOperation = ''istio'',
      BookInfoOperation = ''bookinfo'',
      HTTPBinOperation = ''httpbin'',
      ImageHubOperation = ''imagehub'',
      EmojiVotoOperation = ''emojivoto'',
      SmiConformanceOperation = ''smi_conformance'',
      DenyAllPolicyOperation = ''deny_all'',
      StrictMTLSPolicyOperation = ''strict_mtls'',
      MutualMTLSPolicyOperation = ''mutual_mtls'',
      DisableMTLSPolicyOperation = ''disable_mtls'',
      CustomOperation = ''custom'',
      LabelNamespace = ''label_namespace'',
      PrometheusAddon = ''prometheus'',
      GrafanaAddon = ''grafana'',
      KialiAddon = ''kiali'',
      JaegerAddon = ''jaeger'',
      ZipkinAddon = ''zipkin'',
      IstioVetOperation = ''istio_vet'',
      EnvoyFilterOperation = ''envoy_filter'',
      ServiceName = ''service_name'',
      ServicePatchFile = ''service_patch_file'',
      FilterPatchFile = ''filter_patch_file'',
      status_Deploying = ''deploying'',
      status_Running = ''running'',
      status_Completed = ''completed'',
      status_Deployed = ''deployed'',
      ServerConfig_type = ''adapter'',
      ServerConfig_name = ''istio''\<rparr>"

text \<open>
  Collaborators that fail with a meshkit error in the namespace \<open>''forbidden''\<close>, with
  an error of another type in the namespace \<open>''unreachable''\<close>, and succeed elsewhere;
  the verification feed has four records.
\<close>

definition sample_status :: "string \<Rightarrow> bool \<Rightarrow> string \<times> error option" where
  "sample_status ns del =
     (if del then ''removed'' else ''deployed'',
      if ns = ''forbidden'' then Some (Meshkit ''namespace is forbidden'')
      else if ns = ''unreachable'' then Some (External ''connection refused'')
      else None)"

definition sample_feed :: "EventsResponse list" where
  "sample_feed =
     map (\<lambda>(ty, d).
            \<lparr>EventType = ty, Summary = ''vet'', Details = d, OperationId = ''op-1'',
             ProbableCause = [], SuggestedRemediation = [], ErrorCode = [],
             Component = ''adapter'', ComponentName = ''istio''\<rparr>)
       [(EventType_INFO, ''first''), (EventType_WARN, ''second''),
        (EventType_ERROR, ''third''), (EventType_INFO, ''fourth'')]"

definition sample_collaborators :: collaborators where
  "sample_collaborators =
     \<lparr>installIstio = (\<lambda>del useBin version ns profile kc. sample_status ns del),
      installSampleApp = (\<lambda>ns del templates kc. sample_status ns del),
      RunSMITest = (\<lambda>opts. None),
      applyPolicy = (\<lambda>ns del templates kc. sample_status ns del),
      applyCustomOperation = (\<lambda>ns body del kc. sample_status ns del),
      LoadNamespaceToMesh = (\<lambda>ns del kc. snd (sample_status ns del)),
      installAddon = (\<lambda>ns del svc patches templates kc. sample_status ns del),
      RunVet = (\<lambda>kc. sample_feed),
      patchWithEnvoyFilter = (\<lambda>ns del app templates patch kc. sample_status ns del),
      Error_text = sample_text,
      GetCode = (\<lambda>e. ''1000''),
      GetCause = (\<lambda>e. ''cause''),
      GetRemedy = (\<lambda>e. ''remedy'')\<rparr>"

definition sample_operations :: Operations where
  "sample_operations =
     [''istio'' \<mapsto> \<lparr>Description = ''Istio service mesh'', Versions = [''1.1'', ''1.2''],
                     Templates = [], AdditionalProperties = Map.empty\<rparr>,
      ''smi_conformance'' \<mapsto> \<lparr>Description = ''SMI conformance'', Versions = [],
                     Templates = [''smi.yaml''], AdditionalProperties = Map.empty\<rparr>]"

definition sample_request :: "string \<Rightarrow> string \<Rightarrow> string \<Rightarrow> OperationRequest" where
  "sample_request name ns version =
     \<lparr>OperationName = name, Namespace = ns, CustomBody = [], IsDeleteOperation = False,
      OperationID = ''op-1'', K8sConfigs = [''one''], Version = version\<rparr>"

text \<open>
  Collaborators of ProcessOAM: the component \<open>''broken''\<close> does not parse, and a handler
  fails when it is given the name \<open>''failing''\<close>.
\<close>

definition sample_oam :: "(string, string) oam_collaborators" where
  "sample_oam =
     \<lparr>ParseApplicationComponent =
        (\<lambda>raw. if raw = ''broken'' then ([], Some (External ''bad component'')) else (raw, None)),
      ParseApplicationConfiguration = (\<lambda>raw. (raw, None)),
      HandleComponents =
        (\<lambda>comps del kc.
           if ''failing'' \<in> set comps then (''components failed'', Some (External ''no component''))
           else (''components done'', None)),
      HandleApplicationConfiguration =
        (\<lambda>config del kc.
           if config = ''failing'' then (''configuration failed'', Some (External ''no configuration''))
           else (''configuration done'', None))\<rparr>"

definition sample_oam_request :: "bool \<Rightarrow> string list \<Rightarrow> string \<Rightarrow> OAMRequest" where
  "sample_oam_request del comps config =
     \<lparr>DeleteOp = del, OamComps = comps, OamConfig = config, OAM_K8sConfigs = [''one'']\<rparr>"

section \<open>CreateKubeconfigs: partial success and aggregation\<close>

lemma loop_step:
  "CreateKubeconfigs_loop K U (p # ps) h errs =
     CreateKubeconfigs_loop K U ps (payload_effect K U h p)
       (errs @ (case payload_failure K U h p of None \<Rightarrow> [] | Some e \<Rightarrow> [e]))"
  by (simp add: payload_effect_def payload_failure_def split: sum.splits prod.splits option.splits)

lemma loop_state: "fst (CreateKubeconfigs_loop K U ps h errs) = foldl (payload_effect K U) h ps"
proof (induction ps arbitrary: h errs)
  case Nil
  show ?case by simp
next
  case (Cons p ps)
  show ?case unfolding loop_step by (simp add: Cons.IH)
qed

lemma loop_failures: "snd (CreateKubeconfigs_loop K U ps h errs) = errs @ failures K U h ps"
proof (induction ps arbitrary: h errs)
  case Nil
  show ?case by simp
next
  case (Cons p ps)
  show ?case unfolding loop_step by (simp add: Cons.IH)
qed

lemma map_filter_map: "List.map_filter f (map g xs) = List.map_filter (\<lambda>x. f (g x)) xs"
  by (induction xs) (simp_all split: option.splits)

lemma failures_index:
  "failures K U h ps =
     List.map_filter (\<lambda>i. payload_failure K U (foldl (payload_effect K U) h (take i ps)) (ps ! i))
       [0..<length ps]"
proof (induction ps arbitrary: h)
  case Nil
  show ?case by simp
next
  case (Cons p ps)
  have upt: "[0..<length (p # ps)] = 0 # map Suc [0..<length ps]"
    by (simp add: upt_conv_Cons map_Suc_upt del: upt_Suc)
  show ?case
    unfolding upt
    by (simp add: Cons.IH map_filter_map split: option.splits)
qed

lemma failures_Nil_iff:
  "failures K U h ps = [] \<longleftrightarrow>
     (\<forall>i<length ps. payload_failure K U (foldl (payload_effect K U) h (take i ps)) (ps ! i) = None)"
proof (induction ps arbitrary: h)
  case Nil
  show ?case by simp
next
  case (Cons p ps)
  show ?case
    by (auto simp: Cons.IH All_less_Suc2 split: option.splits)
qed

lemma CreateKubeconfigs_eq:
  "CreateKubeconfigs K U txt ps h =
     (if failures K U h ps = [] then None else Some (mergeErrors txt (failures K U h ps)),
      foldl (payload_effect K U) h ps)"
proof -
  obtain h' errs where l: "CreateKubeconfigs_loop K U ps h [] = (h', errs)"
    by (cases "CreateKubeconfigs_loop K U ps h []")
  have "h' = foldl (payload_effect K U) h ps"
    using loop_state [of K U ps h "[]"] l by simp
  moreover have "errs = failures K U h ps"
    using loop_failures [of K U ps h "[]"] l by simp
  ultimately show ?thesis
    by (simp add: CreateKubeconfigs_def l)
qed

lemma foldl_skip_unparsed:
  "foldl (payload_effect K U) h (filter (\<lambda>p. \<not> isl (U p)) ps) = foldl (payload_effect K U) h ps"
  by (induction ps arbitrary: h) (auto simp: payload_effect_def split: sum.splits)

lemma sublist_concat_map:
  assumes "e \<in> set errs"
  shows "sublist (txt e) (concat (map txt errs))"
proof -
  from assms obtain xs ys where "errs = xs @ e # ys"
    by (auto simp: in_set_conv_decomp)
  then show ?thesis by simp
qed

text \<open>
  Claim C3. For every sequence of payloads, CreateKubeconfigs leaves the handler that the
  payloads leave one after the other, where a payload that does not parse leaves the
  handler as it is and a payload that parses is merged; this is the handler that the
  parseable payloads alone leave. It returns nil exactly when no payload fails to parse
  or to merge. Otherwise it returns the one error that \<open>mergeErrors\<close> makes of all the
  failures in the order of the payloads, and the text of every failure is a part of the
  text of that error.
\<close>

theorem CreateKubeconfigs_aggregates:
  "(let st = (\<lambda>i. foldl (payload_effect K Unmarshal) h (take i kubeconfigs));
        errs = List.map_filter (\<lambda>i. payload_failure K Unmarshal (st i) (kubeconfigs ! i))
                 [0..<length kubeconfigs];
        r = CreateKubeconfigs K Unmarshal txt kubeconfigs h
    in snd r = foldl (payload_effect K Unmarshal) h kubeconfigs \<and>
       snd r = snd (CreateKubeconfigs K Unmarshal txt
                      (filter (\<lambda>p. \<not> isl (Unmarshal p)) kubeconfigs) h) \<and>
       (fst r = None \<longleftrightarrow>
          (\<forall>i<length kubeconfigs.
             payload_failure K Unmarshal (st i) (kubeconfigs ! i) = None)) \<and>
       (fst r \<noteq> None \<longrightarrow>
          fst r = Some (mergeErrors txt errs) \<and>
          mergeErrors txt errs = Merged (concat (map txt errs)) \<and>
          (\<forall>e \<in> set errs. sublist (txt e) (concat (map txt errs)))))"
  unfolding Let_def
  by (simp add: CreateKubeconfigs_eq foldl_skip_unparsed failures_Nil_iff
        failures_index [symmetric] mergeErrors_def sublist_concat_map)


text \<open>
  Four payloads, the first of which does not parse and the third of which cannot be
  merged: both failures are in the returned error, and the last payload is merged.
\<close>

theorem CreateKubeconfigs_aggregates_witness:
  "fst (CreateKubeconfigs sample_handler sample_Unmarshal sample_text
          [''bad'', ''one'', ''half'', ''two''] Map.empty) =
     Some (Merged ''cannot parse badcannot store clusters'') \<and>
   sublist ''cannot parse bad'' ''cannot parse badcannot store clusters'' \<and>
   sublist ''cannot store clusters'' ''cannot parse badcannot store clusters'' \<and>
   snd (CreateKubeconfigs sample_handler sample_Unmarshal sample_text
          [''bad'', ''one'', ''half'', ''two''] Map.empty) ''current-context'' =
     Some (Scalar ''ctx-two'') \<and>
   snd (CreateKubeconfigs sample_handler sample_Unmarshal sample_text
          [''bad'', ''one'', ''half'', ''two''] Map.empty) ''contexts'' =
     Some (Object ''contexts-two'')"
  using CreateKubeconfigs_aggregates
    [of sample_handler sample_Unmarshal Map.empty "[''bad'', ''one'', ''half'', ''two'']" sample_text]
  by (simp add: Let_def payload_failure_def payload_effect_def merge_kubeconfig_def
        CreateKubeconfigs_def sample_handler_def sample_Unmarshal_def mergeErrors_def
        sublist_code)

lemma failures_append:
  "failures K U h (xs @ ys) =
     failures K U h xs @ failures K U (foldl (payload_effect K U) h xs) ys"
  by (induction xs arbitrary: h) simp_all

lemma CreateKubeconfigs_failed_payload:
  assumes "Unmarshal p = Inr kconfig"
    and "merge_kubeconfig K kconfig (snd (CreateKubeconfigs K Unmarshal txt before h0)) = (Some err, h')"
  shows "fst (CreateKubeconfigs K Unmarshal txt (before @ p # rest) h0) \<noteq> None \<and>
         snd (CreateKubeconfigs K Unmarshal txt (before @ p # rest) h0) =
           snd (CreateKubeconfigs K Unmarshal txt rest h')"
  using assms
  by (simp add: CreateKubeconfigs_eq failures_append payload_failure_def payload_effect_def)

text \<open>
  Claim C10. Let a payload parse, after any payloads before it, and let the storing of one
  of its collections fail. Then the payloads after it are processed from the handler that
  the failing \<open>SetObject\<close> call returns: the handler in which the three scalar keys and
  the collections before the failing one have been set, with no call that undoes them.
  The failure makes the result an error.
\<close>

theorem CreateKubeconfigs_no_rollback:
  assumes "Unmarshal p = Inr kconfig"
    and "h3 = scalars_set K kconfig (snd (CreateKubeconfigs K Unmarshal txt before h0))"
  shows
    "(\<forall>err h4.
        SetObject K ''preferences'' (Preferences kconfig) h3 = (Some err, h4) \<longrightarrow>
        fst (CreateKubeconfigs K Unmarshal txt (before @ p # rest) h0) \<noteq> None \<and>
        snd (CreateKubeconfigs K Unmarshal txt (before @ p # rest) h0) =
          snd (CreateKubeconfigs K Unmarshal txt rest h4)) \<and>
     (\<forall>err h4 h5.
        SetObject K ''preferences'' (Preferences kconfig) h3 = (None, h4) \<and>
        SetObject K ''clusters'' (Clusters kconfig) h4 = (Some err, h5) \<longrightarrow>
        fst (CreateKubeconfigs K Unmarshal txt (before @ p # rest) h0) \<noteq> None \<and>
        snd (CreateKubeconfigs K Unmarshal txt (before @ p # rest) h0) =
          snd (CreateKubeconfigs K Unmarshal txt rest h5)) \<and>
     (\<forall>err h4 h5 h6.
        SetObject K ''preferences'' (Preferences kconfig) h3 = (None, h4) \<and>
        SetObject K ''clusters'' (Clusters kconfig) h4 = (None, h5) \<and>
        SetObject K ''users'' (Users kconfig) h5 = (Some err, h6) \<longrightarrow>
        fst (CreateKubeconfigs K Unmarshal txt (before @ p # rest) h0) \<noteq> None \<and>
        snd (CreateKubeconfigs K Unmarshal txt (before @ p # rest) h0) =
          snd (CreateKubeconfigs K Unmarshal txt rest h6)) \<and>
     (\<forall>err h4 h5 h6 h7.
        SetObject K ''preferences'' (Preferences kconfig) h3 = (None, h4) \<and>
        SetObject K ''clusters'' (Clusters kconfig) h4 = (None, h5) \<and>
        SetObject K ''users'' (Users kconfig) h5 = (None, h6) \<and>
        SetObject K ''contexts'' (Contexts kconfig) h6 = (Some err, h7) \<longrightarrow>
        fst (CreateKubeconfigs K Unmarshal txt (before @ p # rest) h0) \<noteq> None \<and>
        snd (CreateKubeconfigs K Unmarshal txt (before @ p # rest) h0) =
          snd (CreateKubeconfigs K Unmarshal txt rest h7))"
proof -
  let ?h = "snd (CreateKubeconfigs K Unmarshal txt before h0)"
  have m: "merge_kubeconfig K kconfig ?h = (Some err, h') \<Longrightarrow>
        fst (CreateKubeconfigs K Unmarshal txt (before @ p # rest) h0) \<noteq> None \<and>
        snd (CreateKubeconfigs K Unmarshal txt (before @ p # rest) h0) =
          snd (CreateKubeconfigs K Unmarshal txt rest h')" for err h'
    using assms(1) by (rule CreateKubeconfigs_failed_payload)
  have 1: "SetObject K ''preferences'' (Preferences kconfig) h3 = (Some err, h4) \<Longrightarrow>
        merge_kubeconfig K kconfig ?h = (Some err, h4)" for err h4
    using assms(2) by (simp add: merge_kubeconfig_def scalars_set_def)
  have 2: "SetObject K ''preferences'' (Preferences kconfig) h3 = (None, h4) \<Longrightarrow>
        SetObject K ''clusters'' (Clusters kconfig) h4 = (Some err, h5) \<Longrightarrow>
        merge_kubeconfig K kconfig ?h = (Some err, h5)" for err h4 h5
    using assms(2) by (simp add: merge_kubeconfig_def scalars_set_def)
  have 3: "SetObject K ''preferences'' (Preferences kconfig) h3 = (None, h4) \<Longrightarrow>
        SetObject K ''clusters'' (Clusters kconfig) h4 = (None, h5) \<Longrightarrow>
        SetObject K ''users'' (Users kconfig) h5 = (Some err, h6) \<Longrightarrow>
        merge_kubeconfig K kconfig ?h = (Some err, h6)" for err h4 h5 h6
    using assms(2) by (simp add: merge_kubeconfig_def scalars_set_def)
  have 4: "SetObject K ''preferences'' (Preferences kconfig) h3 = (None, h4) \<Longrightarrow>
        SetObject K ''clusters'' (Clusters kconfig) h4 = (None, h5) \<Longrightarrow>
        SetObject K ''users'' (Users kconfig) h5 = (None, h6) \<Longrightarrow>
        SetObject K ''contexts'' (Contexts kconfig) h6 = (Some err, h7) \<Longrightarrow>
        merge_kubeconfig K kconfig ?h = (Some err, h7)" for err h4 h5 h6 h7
    using assms(2) by (simp add: merge_kubeconfig_def scalars_set_def)
  show ?thesis
    using m 1 2 3 4 by blast
qed

text \<open>
  The payload \<open>''half''\<close> after \<open>''one''\<close>: its scalar keys and its preferences stay in
  the handler, its clusters, users and contexts are those of \<open>''one''\<close>.
\<close>

theorem CreateKubeconfigs_no_rollback_witness:
  "sample_Unmarshal ''half'' =
     Inr \<lparr>Kind = ''Config'', APIVersion = ''v2'', CurrentContext = ''ctx-half'',
          Preferences = ''prefs-half'', Clusters = ''corrupt'', Users = ''users-half'',
          Contexts = ''contexts-half''\<rparr> \<and>
   fst (CreateKubeconfigs sample_handler sample_Unmarshal sample_text
          [''one'', ''half'', ''bad''] Map.empty) \<noteq> None \<and>
   map (snd (CreateKubeconfigs sample_handler sample_Unmarshal sample_text
               [''one'', ''half'', ''bad''] Map.empty))
     [''kind'', ''apiVersion'', ''current-context'', ''preferences'', ''clusters'', ''users'',
      ''contexts''] =
     [Some (Scalar ''Config''), Some (Scalar ''v2''), Some (Scalar ''ctx-half''),
      Some (Object ''prefs-half''), Some (Object ''clusters-one''), Some (Object ''users-one''),
      Some (Object ''contexts-one'')]"
  using CreateKubeconfigs_no_rollback
    [of sample_Unmarshal "''half''"
        "\<lparr>Kind = ''Config'', APIVersion = ''v2'', CurrentContext = ''ctx-half'',
          Preferences = ''prefs-half'', Clusters = ''corrupt'', Users = ''users-half'',
          Contexts = ''contexts-half''\<rparr>"
        _ sample_handler sample_text "[''one'']" Map.empty "[''bad'']",
     OF _ refl]
  by (simp add: CreateKubeconfigs_def merge_kubeconfig_def scalars_set_def
        sample_handler_def sample_Unmarshal_def mergeErrors_def)


section \<open>ApplyOperation: dispatch and the tasks\<close>

lemma ApplyOperation_dispatch:
  assumes "fst (CreateKubeconfigs K U txt (K8sConfigs opReq) h) = None"
  shows "ApplyOperation C K U txt (Inr operations) opReq h =
     (case classify C (OperationName opReq) of
        Some k \<Rightarrow>
          \<lparr>returned = None,
           launched = Some (Go k operations opReq (Version opReq) (K8sConfigs opReq)
                              (initial_record C opReq)),
           pushed = [],
           kubeconfig_handler = snd (CreateKubeconfigs K U txt (K8sConfigs opReq) h)\<rparr>
      | None \<Rightarrow>
          \<lparr>returned = None, launched = None,
           pushed = [StreamErr (initial_record C opReq) ErrOpInvalid],
           kubeconfig_handler = snd (CreateKubeconfigs K U txt (K8sConfigs opReq) h)\<rparr>)"
proof -
  obtain h' where "CreateKubeconfigs K U txt (K8sConfigs opReq) h = (None, h')"
    using assms by (cases "CreateKubeconfigs K U txt (K8sConfigs opReq) h") simp
  then show ?thesis
    by (simp add: ApplyOperation_def Let_def split: option.splits)
qed



lemma classify_Istio: "classify C (IstioOperation C) = Some Istio"
  by (simp add: classify_def)

lemma classify_None:
  "name \<notin> set (case_labels C) \<Longrightarrow> classify C name = None"
  by (simp add: classify_def case_labels_def)

lemma classify_Some:
  "classify C name = Some k \<Longrightarrow> name \<in> set (case_labels C)"
  by (auto simp: classify_def case_labels_def split: if_splits)

text \<open>
  Claim C1. When ApplyOperation dispatches the Istio operation and the catalog descriptor
  of that operation lists at least one version, the first thing the task does is to call
  \<open>installIstio\<close>, with the requested version if the descriptor lists it and with
  the last listed version otherwise; it calls no other collaborator. When
  \<open>installIstio\<close> returns nil or a meshkit error (the precondition of line 76), the
  task then hands one record to the sink and ends.
\<close>

theorem ApplyOperation_effective_version:
  assumes "fst (CreateKubeconfigs K Unmarshal txt (K8sConfigs opReq) h) = None"
    and "OperationName opReq = IstioOperation C"
    and "operations (OperationName opReq) = Some d"
    and "Versions d \<noteq> []"
  shows "\<exists>t.
     launched (ApplyOperation C K Unmarshal txt (Inr operations) opReq h) = Some t \<and>
     (let call = Call_installIstio (IsDeleteOperation opReq) False
                   (if Version opReq \<in> set (Versions d) then Version opReq
                    else last (Versions d))
                   (Namespace opReq) ''default'' (K8sConfigs opReq)
      in (\<exists>rest. effects_of (run_task C L t) = call # rest \<and> length rest \<le> 1 \<and>
                  list_all is_sink rest) \<and>
         ((\<forall>e. collaborator_result L call = Some e \<longrightarrow> is_meshkit e) \<longrightarrow>
            (\<exists>ev. run_task C L t = Completed [call, ev] \<and> is_sink ev)))"
proof -
  let ?t = "Go Istio operations opReq (Version opReq) (K8sConfigs opReq) (initial_record C opReq)"
  let ?call = "Call_installIstio (IsDeleteOperation opReq) False
                 (if Version opReq \<in> set (Versions d) then Version opReq else last (Versions d))
                 (Namespace opReq) ''default'' (K8sConfigs opReq)"
  have l: "launched (ApplyOperation C K Unmarshal txt (Inr operations) opReq h) = Some ?t"
    using assms(2) by (simp add: ApplyOperation_dispatch [OF assms(1)] classify_Istio)
  have n: "Versions d ! (length (Versions d) - 1) = last (Versions d)"
    using assms(4) by (simp add: last_conv_nth)
  have a: "\<exists>rest. effects_of (run_task C L ?t) = ?call # rest \<and> length rest \<le> 1 \<and>
             list_all is_sink rest"
    using assms(3,4) n
    by (simp add: task_Istio_def Let_def stream_error_def split: prod.splits option.splits)
  have b: "\<exists>ev. run_task C L ?t = Completed [?call, ev] \<and> is_sink ev"
    if "\<forall>e. collaborator_result L ?call = Some e \<longrightarrow> is_meshkit e"
    using assms(3,4) n that
    by (simp add: task_Istio_def Let_def stream_error_def split: prod.splits option.splits)
  from l a b show ?thesis
    unfolding Let_def by blast
qed

text \<open>
  The catalog lists 1.1 and 1.2: a request for 1.0 installs 1.2, a request for 1.1
  installs 1.1.
\<close>

theorem ApplyOperation_effective_version_witness:
  "fst (CreateKubeconfigs sample_handler sample_Unmarshal sample_text
          (K8sConfigs (sample_request ''istio'' ''default'' ''1.0'')) Map.empty) = None \<and>
   OperationName (sample_request ''istio'' ''default'' ''1.0'') = IstioOperation sample_constants \<and>
   Versions (the (sample_operations ''istio'')) = [''1.1'', ''1.2''] \<and>
   run_task sample_constants sample_collaborators
     (the (launched (ApplyOperation sample_constants sample_handler sample_Unmarshal sample_text
                       (Inr sample_operations) (sample_request ''istio'' ''default'' ''1.0'')
                       Map.empty))) =
     Completed
       [Call_installIstio False False ''1.2'' ''default'' ''default'' [''one''],
        StreamInfo
          ((initial_record sample_constants (sample_request ''istio'' ''default'' ''1.0''))
             \<lparr>Summary := ''Istio service mesh 1.2 deployed successfully'',
              Details := ''The Istio service mesh 1.2 is now deployed.''\<rparr>)] \<and>
   run_task sample_constants sample_collaborators
     (the (launched (ApplyOperation sample_constants sample_handler sample_Unmarshal sample_text
                       (Inr sample_operations) (sample_request ''istio'' ''default'' ''1.1'')
                       Map.empty))) =
     Completed
       [Call_installIstio False False ''1.1'' ''default'' ''default'' [''one''],
        StreamInfo
          ((initial_record sample_constants (sample_request ''istio'' ''default'' ''1.1''))
             \<lparr>Summary := ''Istio service mesh 1.1 deployed successfully'',
              Details := ''The Istio service mesh 1.1 is now deployed.''\<rparr>)]"
  using
    ApplyOperation_effective_version
      [of sample_handler sample_Unmarshal sample_text "sample_request ''istio'' ''default'' ''1.0''"
          Map.empty sample_constants sample_operations
          "\<lparr>Description = ''Istio service mesh'', Versions = [''1.1'', ''1.2''],
            Templates = [], AdditionalProperties = Map.empty\<rparr>" sample_collaborators]
    ApplyOperation_effective_version
      [of sample_handler sample_Unmarshal sample_text "sample_request ''istio'' ''default'' ''1.1''"
          Map.empty sample_constants sample_operations
          "\<lparr>Description = ''Istio service mesh'', Versions = [''1.1'', ''1.2''],
            Templates = [], AdditionalProperties = Map.empty\<rparr>" sample_collaborators]
  by (simp add: CreateKubeconfigs_def merge_kubeconfig_def sample_handler_def
        sample_Unmarshal_def sample_request_def sample_constants_def sample_operations_def
        ApplyOperation_def classify_def task_Istio_def initial_record_def
        sample_collaborators_def sample_status_def stream_error_def Let_def)


text \<open>
  Claim C9, as amended. When the catalog descriptor of the Istio operation lists no
  version, ApplyOperation still returns nil and launches the task; the task hands the sink
  one error record that carries \<open>ErrFetchIstioVersions\<close>, and it calls no collaborator:
  \<open>installIstio\<close> is never called. The claim as stated, that the dispatch fails, does
  not hold.
\<close>

theorem ApplyOperation_no_versions:
  assumes "fst (CreateKubeconfigs K Unmarshal txt (K8sConfigs opReq) h) = None"
    and "OperationName opReq = IstioOperation C"
    and "operations (OperationName opReq) = Some d"
    and "Versions d = []"
  shows
    "returned (ApplyOperation C K Unmarshal txt (Inr operations) opReq h) = None \<and>
     pushed (ApplyOperation C K Unmarshal txt (Inr operations) opReq h) = [] \<and>
     launched (ApplyOperation C K Unmarshal txt (Inr operations) opReq h) =
       Some (Go Istio operations opReq (Version opReq) (K8sConfigs opReq)
               (initial_record C opReq)) \<and>
     run_task C L (Go Istio operations opReq (Version opReq) (K8sConfigs opReq)
                     (initial_record C opReq)) =
       Completed
         [StreamErr
            (error_record L (initial_record C opReq) ''Error while  Istio service mesh ''
               ErrFetchIstioVersions)
            ErrFetchIstioVersions]"
  using assms(2,3,4)
  by (simp add: ApplyOperation_dispatch [OF assms(1)] classify_Istio task_Istio_def
        stream_error_def)

text \<open>
  Claim C6, as amended. For an operation name that is none of the case labels of the
  switch, ApplyOperation launches no task, returns nil, and hands the sink exactly one
  record itself, through \<open>StreamErr\<close> with the error \<open>ErrOpInvalid\<close>: the initial
  record, whose summary is \<open>status.Deploying\<close> and whose details are "Operation is
  not supported". The claim as stated, that the summary of the record contains
  "invalid operation", does not hold.
\<close>

theorem ApplyOperation_invalid_operation:
  assumes "fst (CreateKubeconfigs K Unmarshal txt (K8sConfigs opReq) h) = None"
    and "OperationName opReq \<notin> set (case_labels C)"
  shows
    "launched (ApplyOperation C K Unmarshal txt (Inr operations) opReq h) = None \<and>
     returned (ApplyOperation C K Unmarshal txt (Inr operations) opReq h) = None \<and>
     (\<exists>ev. pushed (ApplyOperation C K Unmarshal txt (Inr operations) opReq h) =
             [StreamErr ev ErrOpInvalid] \<and>
           ev = initial_record C opReq \<and>
           Summary ev = status_Deploying C \<and>
           Details ev = ''Operation is not supported'' \<and>
           OperationId ev = OperationID opReq)"
  by (simp add: ApplyOperation_dispatch [OF assms(1)] classify_None [OF assms(2)]
        initial_record_def)

text \<open>
  Claim C8, as amended. The first thing the task of the conformance test does is to call
  \<open>RunSMITest\<close> with the fixed namespace \<open>''meshery''\<close>, labelled
  \<open>istio-injection = enabled\<close>, with the first template of the descriptor as manifest
  and the operation id of the request, whatever the namespace of the request is; it calls
  no other collaborator. When \<open>RunSMITest\<close> returns nil or a meshkit error, the task
  then hands one record to the sink and ends. The claim as stated, that the suite runs
  against the namespace of the request, does not hold.
\<close>

theorem ApplyOperation_conformance_namespace:
  assumes "fst (CreateKubeconfigs K Unmarshal txt (K8sConfigs opReq) h) = None"
    and "classify C (OperationName opReq) = Some SmiConformance"
    and "operations (OperationName opReq) = Some d"
    and "Templates d = t # ts"
  shows "\<exists>task.
     launched (ApplyOperation C K Unmarshal txt (Inr operations) opReq h) = Some task \<and>
     (let call = Call_RunSMITest
                   \<lparr>SMI_OperationID = OperationID opReq,
                    SMI_Labels = [(''istio-injection'', ''enabled'')],
                    SMI_Namespace = ''meshery'',
                    SMI_Manifest = t,
                    SMI_Annotations = []\<rparr>
      in (\<exists>rest. effects_of (run_task C L task) = call # rest \<and> length rest \<le> 1 \<and>
                  list_all is_sink rest) \<and>
         ((\<forall>e. collaborator_result L call = Some e \<longrightarrow> is_meshkit e) \<longrightarrow>
            (\<exists>ev. run_task C L task = Completed [call, ev] \<and> is_sink ev)))"
proof -
  let ?t = "Go SmiConformance operations opReq (Version opReq) (K8sConfigs opReq)
              (initial_record C opReq)"
  let ?call = "Call_RunSMITest
                 \<lparr>SMI_OperationID = OperationID opReq,
                  SMI_Labels = [(''istio-injection'', ''enabled'')],
                  SMI_Namespace = ''meshery'',
                  SMI_Manifest = t,
                  SMI_Annotations = []\<rparr>"
  have l: "launched (ApplyOperation C K Unmarshal txt (Inr operations) opReq h) = Some ?t"
    using assms(2) by (simp add: ApplyOperation_dispatch [OF assms(1)])
  have a: "\<exists>rest. effects_of (run_task C L ?t) = ?call # rest \<and> length rest \<le> 1 \<and>
             list_all is_sink rest"
    using assms(3,4)
    by (simp add: task_SmiConformance_def Let_def initial_record_def stream_error_def
          split: option.splits)
  have b: "\<exists>ev. run_task C L ?t = Completed [?call, ev] \<and> is_sink ev"
    if "\<forall>e. collaborator_result L ?call = Some e \<longrightarrow> is_meshkit e"
    using assms(3,4) that
    by (simp add: task_SmiConformance_def Let_def initial_record_def stream_error_def
          split: option.splits)
  from l a b show ?thesis
    unfolding Let_def by blast
qed

lemma consume_map: "consume feed = map forward feed"
  by (induction feed) simp_all

lemma is_sink_forward: "is_sink (forward msg)"
  by (simp add: forward_def split: EventType.splits)

lemma filter_sink_consume: "filter is_sink (consume feed) = consume feed"
  by (induction feed) (simp_all add: is_sink_forward)

text \<open>
  Claim C5. The task of the verification operation starts the producer and then hands the
  sink one record for every record of the feed, in the order of the feed and up to its
  end: a record of type ERROR through \<open>StreamErr\<close> and one of type WARN through
  \<open>StreamWarn\<close>, each with the error \<open>ErrIstioVet\<close> made from the details of the
  record, and every other record through \<open>StreamInfo\<close>. Only after the last record
  of the feed does the task log \<open>Done\<close> and end.
\<close>

theorem vet_consumer_forwards_in_order:
  assumes "fst (CreateKubeconfigs K Unmarshal txt (K8sConfigs opReq) h) = None"
    and "classify C (OperationName opReq) = Some Vet"
  shows "\<exists>task tr.
     launched (ApplyOperation C K Unmarshal txt (Inr operations) opReq h) = Some task \<and>
     run_task C L task = Completed tr \<and>
     tr = Call_RunVet (K8sConfigs opReq) # filter is_sink tr @ [Log_Info ''Done''] \<and>
     length (filter is_sink tr) = length (RunVet L (K8sConfigs opReq)) \<and>
     (\<forall>i < length (RunVet L (K8sConfigs opReq)).
        filter is_sink tr ! i =
          (let msg = RunVet L (K8sConfigs opReq) ! i
           in case EventType msg of
                EventType_ERROR \<Rightarrow> StreamErr msg (ErrIstioVet (StdError (Details msg)))
              | EventType_WARN \<Rightarrow> StreamWarn msg (ErrIstioVet (StdError (Details msg)))
              | EventType_INFO \<Rightarrow> StreamInfo msg
              | EventType_other n \<Rightarrow> StreamInfo msg))"
proof -
  let ?t = "Go Vet operations opReq (Version opReq) (K8sConfigs opReq) (initial_record C opReq)"
  let ?feed = "RunVet L (K8sConfigs opReq)"
  let ?tr = "Call_RunVet (K8sConfigs opReq) # consume ?feed @ [Log_Info ''Done'']"
  have l: "launched (ApplyOperation C K Unmarshal txt (Inr operations) opReq h) = Some ?t"
    using assms(2) by (simp add: ApplyOperation_dispatch [OF assms(1)])
  have r: "run_task C L ?t = Completed ?tr"
    by (simp add: task_Vet_def)
  have f: "filter is_sink ?tr = consume ?feed"
    by (simp add: filter_sink_consume)
  have n: "consume ?feed ! i =
          (let msg = ?feed ! i
           in case EventType msg of
                EventType_ERROR \<Rightarrow> StreamErr msg (ErrIstioVet (StdError (Details msg)))
              | EventType_WARN \<Rightarrow> StreamWarn msg (ErrIstioVet (StdError (Details msg)))
              | EventType_INFO \<Rightarrow> StreamInfo msg
              | EventType_other n \<Rightarrow> StreamInfo msg)" if "i < length ?feed" for i
    using that by (simp add: consume_map forward_def Let_def split: EventType.splits)
  have a: "?tr = Call_RunVet (K8sConfigs opReq) # filter is_sink ?tr @ [Log_Info ''Done'']"
    by (subst f) simp
  have b: "length (filter is_sink ?tr) = length ?feed"
    by (subst f) (simp add: consume_map)
  have c: "\<forall>i < length ?feed.
        filter is_sink ?tr ! i =
          (let msg = ?feed ! i
           in case EventType msg of
                EventType_ERROR \<Rightarrow> StreamErr msg (ErrIstioVet (StdError (Details msg)))
              | EventType_WARN \<Rightarrow> StreamWarn msg (ErrIstioVet (StdError (Details msg)))
              | EventType_INFO \<Rightarrow> StreamInfo msg
              | EventType_other n \<Rightarrow> StreamInfo msg)"
    using n by (subst f) blast
  from l r a b c show ?thesis
    by blast
qed















text \<open>
  Claim C9 as stated fails here: the descriptor lists no version, yet ApplyOperation
  returns nil and launches a task.
\<close>

theorem ApplyOperation_no_versions_counterexample:
  "returned (ApplyOperation sample_constants sample_handler sample_Unmarshal sample_text
       (Inr (sample_operations(''istio'' \<mapsto>
          \<lparr>Description = ''Istio service mesh'', Versions = [], Templates = [],
           AdditionalProperties = Map.empty\<rparr>)))
       (sample_request ''istio'' ''default'' ''1.1'') Map.empty) = None \<and>
   launched (ApplyOperation sample_constants sample_handler sample_Unmarshal sample_text
       (Inr (sample_operations(''istio'' \<mapsto>
          \<lparr>Description = ''Istio service mesh'', Versions = [], Templates = [],
           AdditionalProperties = Map.empty\<rparr>)))
       (sample_request ''istio'' ''default'' ''1.1'') Map.empty) \<noteq> None"
  by (simp add: ApplyOperation_def CreateKubeconfigs_def merge_kubeconfig_def
        sample_handler_def sample_Unmarshal_def sample_request_def sample_constants_def
        classify_def Let_def)

text \<open>
  The same request: the task hands the sink one error record and calls nothing.
\<close>

theorem ApplyOperation_no_versions_witness:
  "fst (CreateKubeconfigs sample_handler sample_Unmarshal sample_text
          (K8sConfigs (sample_request ''istio'' ''default'' ''1.1'')) Map.empty) = None \<and>
   OperationName (sample_request ''istio'' ''default'' ''1.1'') = IstioOperation sample_constants \<and>
   run_task sample_constants sample_collaborators
     (the (launched (ApplyOperation sample_constants sample_handler sample_Unmarshal sample_text
        (Inr (sample_operations(''istio'' \<mapsto>
           \<lparr>Description = ''Istio service mesh'', Versions = [], Templates = [],
            AdditionalProperties = Map.empty\<rparr>)))
        (sample_request ''istio'' ''default'' ''1.1'') Map.empty))) =
     Completed
       [StreamErr
          \<lparr>EventType = EventType_INFO, Summary = ''Error while  Istio service mesh '',
           Details = ''error'', OperationId = ''op-1'', ProbableCause = ''cause'',
           SuggestedRemediation = ''remedy'', ErrorCode = ''1000'', Component = ''adapter'',
           ComponentName = ''istio''\<rparr>
          ErrFetchIstioVersions]"
  using ApplyOperation_no_versions
    [of sample_handler sample_Unmarshal sample_text "sample_request ''istio'' ''default'' ''1.1''"
        Map.empty sample_constants
        "sample_operations(''istio'' \<mapsto>
           \<lparr>Description = ''Istio service mesh'', Versions = [], Templates = [],
            AdditionalProperties = Map.empty\<rparr>)"
        "\<lparr>Description = ''Istio service mesh'', Versions = [], Templates = [],
          AdditionalProperties = Map.empty\<rparr>" sample_collaborators]
  by (simp add: CreateKubeconfigs_def merge_kubeconfig_def sample_handler_def
        sample_Unmarshal_def sample_request_def sample_constants_def
        initial_record_def error_record_def sample_collaborators_def)

text \<open>
  Claim C6 as stated fails here: the summary of the one record handed to the sink is
  \<open>''deploying''\<close>, which does not contain "invalid operation".
\<close>

theorem ApplyOperation_invalid_operation_counterexample:
  "pushed (ApplyOperation sample_constants sample_handler sample_Unmarshal sample_text
             (Inr sample_operations) (sample_request ''reboot'' ''default'' []) Map.empty) =
     [StreamErr
        \<lparr>EventType = EventType_INFO, Summary = ''deploying'',
         Details = ''Operation is not supported'', OperationId = ''op-1'', ProbableCause = [],
         SuggestedRemediation = [], ErrorCode = [], Component = ''adapter'',
         ComponentName = ''istio''\<rparr>
        ErrOpInvalid] \<and>
   \<not> sublist ''invalid operation'' ''deploying''"
  by (simp add: ApplyOperation_def CreateKubeconfigs_def merge_kubeconfig_def
        sample_handler_def sample_Unmarshal_def sample_request_def sample_constants_def
        classify_def Let_def initial_record_def sublist_code)

text \<open>
  The operation name \<open>''reboot''\<close> is no case label.
\<close>

theorem ApplyOperation_invalid_operation_witness:
  "fst (CreateKubeconfigs sample_handler sample_Unmarshal sample_text
          (K8sConfigs (sample_request ''reboot'' ''default'' [])) Map.empty) = None \<and>
   OperationName (sample_request ''reboot'' ''default'' []) \<notin> set (case_labels sample_constants) \<and>
   launched (ApplyOperation sample_constants sample_handler sample_Unmarshal sample_text
               (Inr sample_operations) (sample_request ''reboot'' ''default'' []) Map.empty) = None \<and>
   pushed (ApplyOperation sample_constants sample_handler sample_Unmarshal sample_text
             (Inr sample_operations) (sample_request ''reboot'' ''default'' []) Map.empty) =
     [StreamErr
        \<lparr>EventType = EventType_INFO, Summary = ''deploying'',
         Details = ''Operation is not supported'', OperationId = ''op-1'', ProbableCause = [],
         SuggestedRemediation = [], ErrorCode = [], Component = ''adapter'',
         ComponentName = ''istio''\<rparr>
        ErrOpInvalid]"
  using ApplyOperation_invalid_operation
    [of sample_handler sample_Unmarshal sample_text "sample_request ''reboot'' ''default'' []"
        Map.empty sample_constants sample_operations]
  by (simp add: CreateKubeconfigs_def merge_kubeconfig_def sample_handler_def
        sample_Unmarshal_def sample_request_def sample_constants_def case_labels_def
        initial_record_def)

text \<open>
  Claim C8 as stated fails here: the request names the namespace \<open>''default''\<close> and
  the suite is run in \<open>''meshery''\<close>.
\<close>

theorem ApplyOperation_conformance_namespace_counterexample:
  "run_task sample_constants sample_collaborators
     (the (launched (ApplyOperation sample_constants sample_handler sample_Unmarshal sample_text
        (Inr sample_operations) (sample_request ''smi_conformance'' ''default'' []) Map.empty))) =
     Completed
       [Call_RunSMITest
          \<lparr>SMI_OperationID = ''op-1'', SMI_Labels = [(''istio-injection'', ''enabled'')],
           SMI_Namespace = ''meshery'', SMI_Manifest = ''smi.yaml'', SMI_Annotations = []\<rparr>,
        StreamInfo
          \<lparr>EventType = EventType_INFO,
           Summary = ''SMI conformance test completed successfully'',
           Details = [], OperationId = ''op-1'', ProbableCause = [],
           SuggestedRemediation = [], ErrorCode = [], Component = ''adapter'',
           ComponentName = ''istio''\<rparr>] \<and>
   Namespace (sample_request ''smi_conformance'' ''default'' []) = ''default'' \<and>
   ''meshery'' \<noteq> Namespace (sample_request ''smi_conformance'' ''default'' [])"
  by (simp add: ApplyOperation_def CreateKubeconfigs_def merge_kubeconfig_def
        sample_handler_def sample_Unmarshal_def sample_request_def sample_constants_def
        sample_operations_def classify_def Let_def task_SmiConformance_def
        initial_record_def sample_collaborators_def stream_error_def)

text \<open>
  A request for the namespace \<open>''apps''\<close>.
\<close>

theorem ApplyOperation_conformance_namespace_witness:
  "fst (CreateKubeconfigs sample_handler sample_Unmarshal sample_text
          (K8sConfigs (sample_request ''smi_conformance'' ''apps'' [])) Map.empty) = None \<and>
   classify sample_constants (OperationName (sample_request ''smi_conformance'' ''apps'' [])) =
     Some SmiConformance \<and>
   hd (case run_task sample_constants sample_collaborators
        (the (launched (ApplyOperation sample_constants sample_handler sample_Unmarshal
           sample_text (Inr sample_operations) (sample_request ''smi_conformance'' ''apps'' [])
           Map.empty))) of Completed tr \<Rightarrow> tr | Panicked tr \<Rightarrow> tr) =
     Call_RunSMITest
       \<lparr>SMI_OperationID = ''op-1'', SMI_Labels = [(''istio-injection'', ''enabled'')],
        SMI_Namespace = ''meshery'', SMI_Manifest = ''smi.yaml'', SMI_Annotations = []\<rparr>"
  using ApplyOperation_conformance_namespace
    [of sample_handler sample_Unmarshal sample_text "sample_request ''smi_conformance'' ''apps'' []"
        Map.empty sample_constants sample_operations
        "\<lparr>Description = ''SMI conformance'', Versions = [], Templates = [''smi.yaml''],
          AdditionalProperties = Map.empty\<rparr>" "''smi.yaml''" "[]" sample_collaborators]
  by (simp add: ApplyOperation_def CreateKubeconfigs_def merge_kubeconfig_def
        sample_handler_def sample_Unmarshal_def sample_request_def sample_constants_def
        sample_operations_def classify_def Let_def task_SmiConformance_def
        initial_record_def sample_collaborators_def stream_error_def)

text \<open>
  A feed of an info, a warning, an error and an info record.
\<close>

theorem vet_consumer_forwards_in_order_witness:
  "fst (CreateKubeconfigs sample_handler sample_Unmarshal sample_text
          (K8sConfigs (sample_request ''istio_vet'' ''default'' [])) Map.empty) = None \<and>
   classify sample_constants (OperationName (sample_request ''istio_vet'' ''default'' [])) =
     Some Vet \<and>
   map EventType sample_feed =
     [EventType_INFO, EventType_WARN, EventType_ERROR, EventType_INFO] \<and>
   run_task sample_constants sample_collaborators
     (the (launched (ApplyOperation sample_constants sample_handler sample_Unmarshal sample_text
        (Inr sample_operations) (sample_request ''istio_vet'' ''default'' []) Map.empty))) =
     Completed
       [Call_RunVet [''one''],
        StreamInfo (sample_feed ! 0),
        StreamWarn (sample_feed ! 1) (ErrIstioVet (StdError ''second'')),
        StreamErr (sample_feed ! 2) (ErrIstioVet (StdError ''third'')),
        StreamInfo (sample_feed ! 3),
        Log_Info ''Done'']"
  using vet_consumer_forwards_in_order
    [of sample_handler sample_Unmarshal sample_text "sample_request ''istio_vet'' ''default'' []"
        Map.empty sample_constants sample_operations sample_collaborators]
  by (simp add: ApplyOperation_def CreateKubeconfigs_def merge_kubeconfig_def
        sample_handler_def sample_Unmarshal_def sample_request_def sample_constants_def
        classify_def Let_def task_Vet_def forward_def sample_feed_def
        initial_record_def sample_collaborators_def)


section \<open>ProcessOAM: the order of the phases and the message\<close>

lemma parse_components_comps:
  "fst (parse_components M raws comps tr) =
     comps @ map (\<lambda>a. fst (ParseApplicationComponent M a))
               (filter (\<lambda>a. snd (ParseApplicationComponent M a) = None) raws)"
  by (induction raws arbitrary: comps tr) (auto split: prod.splits option.splits)

lemma parse_components_handles:
  "filter is_handle (snd (parse_components M raws comps tr)) = filter is_handle tr"
  by (induction raws arbitrary: comps tr) (auto split: prod.splits option.splits)

lemma ProcessOAM_ingestion_failed:
  assumes "fst (CreateKubeconfigs K U txt (OAM_K8sConfigs oamReq) h) = Some err"
  shows "ProcessOAM K U txt M oamReq h =
     \<lparr>message = [], failure = Some err, effects = [],
      oam_kubeconfig_handler = snd (CreateKubeconfigs K U txt (OAM_K8sConfigs oamReq) h)\<rparr>"
proof -
  obtain h' where "CreateKubeconfigs K U txt (OAM_K8sConfigs oamReq) h = (Some err, h')"
    using assms by (cases "CreateKubeconfigs K U txt (OAM_K8sConfigs oamReq) h") simp
  then show ?thesis
    by (simp add: ProcessOAM_def)
qed

lemma ProcessOAM_handles:
  assumes "fst (CreateKubeconfigs K U txt (OAM_K8sConfigs oamReq) h) = None"
    and "comps = fst (parse_components M (OamComps oamReq) [] [])"
    and "config = fst (ParseApplicationConfiguration M (OamConfig oamReq))"
    and "kc = OAM_K8sConfigs oamReq"
  shows "filter is_handle (effects (ProcessOAM K U txt M oamReq h)) =
     (if DeleteOp oamReq then
        Call_HandleApplicationConfiguration config True kc #
        (if snd (HandleApplicationConfiguration M config True kc) = None
         then [Call_HandleComponents comps True kc] else [])
      else
        Call_HandleComponents comps False kc #
        (if snd (HandleComponents M comps False kc) = None
         then [Call_HandleApplicationConfiguration config False kc] else []))"
proof -
  obtain h' where i: "CreateKubeconfigs K U txt (OAM_K8sConfigs oamReq) h = (None, h')"
    using assms(1) by (cases "CreateKubeconfigs K U txt (OAM_K8sConfigs oamReq) h") simp
  obtain tr1 where p: "parse_components M (OamComps oamReq) [] [] = (comps, tr1)"
    using assms(2) by (cases "parse_components M (OamComps oamReq) [] []") simp
  have t: "filter is_handle tr1 = []"
    using parse_components_handles [of M "OamComps oamReq" "[]" "[]"] p by simp
  obtain err where c: "ParseApplicationConfiguration M (OamConfig oamReq) = (config, err)"
    using assms(3) by (cases "ParseApplicationConfiguration M (OamConfig oamReq)") simp
  show ?thesis
    unfolding ProcessOAM_def i p c assms(4)
    by (simp add: Let_def t split: prod.splits option.splits)
qed

lemma ProcessOAM_message:
  assumes "fst (CreateKubeconfigs K U txt (OAM_K8sConfigs oamReq) h) = None"
    and "comps = fst (parse_components M (OamComps oamReq) [] [])"
    and "config = fst (ParseApplicationConfiguration M (OamConfig oamReq))"
    and "kc = OAM_K8sConfigs oamReq"
    and "r1 = HandleComponents M comps (DeleteOp oamReq) kc"
    and "r2 = HandleApplicationConfiguration M config (DeleteOp oamReq) kc"
  shows "message (ProcessOAM K U txt M oamReq h) =
     (if DeleteOp oamReq then
        (if snd r2 \<noteq> None then fst r2 else fst r1 @ newline @ fst r2)
      else
        (if snd r1 \<noteq> None then fst r1 else fst r1 @ newline @ fst r2))"
proof -
  obtain h' where i: "CreateKubeconfigs K U txt (OAM_K8sConfigs oamReq) h = (None, h')"
    using assms(1) by (cases "CreateKubeconfigs K U txt (OAM_K8sConfigs oamReq) h") simp
  obtain tr1 where p: "parse_components M (OamComps oamReq) [] [] = (comps, tr1)"
    using assms(2) by (cases "parse_components M (OamComps oamReq) [] []") simp
  obtain err where c: "ParseApplicationConfiguration M (OamConfig oamReq) = (config, err)"
    using assms(3) by (cases "ParseApplicationConfiguration M (OamConfig oamReq)") simp
  show ?thesis
    unfolding ProcessOAM_def i p c assms(4,5,6)
    by (simp add: Let_def split: prod.splits option.splits)
qed


text \<open>
  Claim C4. After the kubeconfigs are ingested, ProcessOAM calls its two handlers in this
  order. With the delete flag unset, \<open>HandleComponents\<close> is called first, once, with
  all the components that parsed, and \<open>HandleApplicationConfiguration\<close> is called
  only after it (and only if it returned no error). With the delete flag set,
  \<open>HandleApplicationConfiguration\<close> is called first and \<open>HandleComponents\<close> only
  after it (and only if it returned no error).
\<close>

theorem ProcessOAM_phase_order:
  assumes "fst (CreateKubeconfigs K Unmarshal txt (OAM_K8sConfigs oamReq) h) = None"
  shows
    "(let comps = map (\<lambda>a. fst (ParseApplicationComponent M a))
                    (filter (\<lambda>a. snd (ParseApplicationComponent M a) = None) (OamComps oamReq));
          config = fst (ParseApplicationConfiguration M (OamConfig oamReq));
          kc = OAM_K8sConfigs oamReq;
          calls = filter is_handle (effects (ProcessOAM K Unmarshal txt M oamReq h))
      in (\<not> DeleteOp oamReq \<longrightarrow>
            calls =
              Call_HandleComponents comps False kc #
              (if snd (HandleComponents M comps False kc) = None
               then [Call_HandleApplicationConfiguration config False kc] else [])) \<and>
         (DeleteOp oamReq \<longrightarrow>
            calls =
              Call_HandleApplicationConfiguration config True kc #
              (if snd (HandleApplicationConfiguration M config True kc) = None
               then [Call_HandleComponents comps True kc] else [])))"
  using ProcessOAM_handles [OF assms refl refl refl, of M]
  by (simp add: Let_def parse_components_comps)

text \<open>
  Three components, the second of which does not parse, without and with the delete
  flag.
\<close>

theorem ProcessOAM_phase_order_witness:
  "fst (CreateKubeconfigs sample_handler sample_Unmarshal sample_text
          (OAM_K8sConfigs (sample_oam_request False [''web'', ''broken'', ''db''] ''cfg''))
          Map.empty) = None \<and>
   effects (ProcessOAM sample_handler sample_Unmarshal sample_text sample_oam
              (sample_oam_request False [''web'', ''broken'', ''db''] ''cfg'') Map.empty) =
     [Call_ParseApplicationComponent ''web'',
      Call_ParseApplicationComponent ''broken'', Log_Error ErrParseOAMComponent,
      Call_ParseApplicationComponent ''db'',
      Call_ParseApplicationConfiguration ''cfg'',
      Call_HandleComponents [''web'', ''db''] False [''one''],
      Call_HandleApplicationConfiguration ''cfg'' False [''one'']] \<and>
   effects (ProcessOAM sample_handler sample_Unmarshal sample_text sample_oam
              (sample_oam_request True [''web'', ''broken'', ''db''] ''cfg'') Map.empty) =
     [Call_ParseApplicationComponent ''web'',
      Call_ParseApplicationComponent ''broken'', Log_Error ErrParseOAMComponent,
      Call_ParseApplicationComponent ''db'',
      Call_ParseApplicationConfiguration ''cfg'',
      Call_HandleApplicationConfiguration ''cfg'' True [''one''],
      Call_HandleComponents [''web'', ''db''] True [''one'']]"
  using
    ProcessOAM_phase_order
      [of sample_handler sample_Unmarshal sample_text
          "sample_oam_request False [''web'', ''broken'', ''db''] ''cfg''" Map.empty sample_oam]
    ProcessOAM_phase_order
      [of sample_handler sample_Unmarshal sample_text
          "sample_oam_request True [''web'', ''broken'', ''db''] ''cfg''" Map.empty sample_oam]
  by (simp add: ProcessOAM_def CreateKubeconfigs_def merge_kubeconfig_def sample_handler_def
        sample_Unmarshal_def sample_oam_request_def sample_oam_def Let_def)

text \<open>
  Claim C7 as stated fails here: without the delete flag the components fail, and the
  message is M1 alone.
\<close>

theorem ProcessOAM_message_counterexample:
  "message (ProcessOAM sample_handler sample_Unmarshal sample_text sample_oam
              (sample_oam_request False [''failing''] ''cfg'') Map.empty) =
     ''components failed'' \<and>
   fst (HandleComponents sample_oam [''failing''] False [''one'']) @ newline @
   fst (HandleApplicationConfiguration sample_oam ''cfg'' False [''one'']) =
     ''components failed'' @ [CHR 0x0A] @ ''configuration done'' \<and>
   message (ProcessOAM sample_handler sample_Unmarshal sample_text sample_oam
              (sample_oam_request False [''failing''] ''cfg'') Map.empty) \<noteq>
     fst (HandleComponents sample_oam [''failing''] False [''one'']) @ newline @
     fst (HandleApplicationConfiguration sample_oam ''cfg'' False [''one''])"
  by (simp add: ProcessOAM_def CreateKubeconfigs_def merge_kubeconfig_def sample_handler_def
        sample_Unmarshal_def sample_oam_request_def sample_oam_def Let_def newline_def)

text \<open>
  Claim C7, as amended. Let M1 be the message of \<open>HandleComponents\<close> and M2 that of
  \<open>HandleApplicationConfiguration\<close>. When the handler that runs first (the components
  without the delete flag, the configuration with it) returns no error, the message of
  ProcessOAM is M1, a line feed, M2, whatever the delete flag is and whether or not the
  second handler returns an error. When the first handler returns an error, the second
  one is not run and the message is the message of the first alone; when the ingestion
  of the kubeconfigs fails, the message is empty. The claim as stated, for every call,
  does not hold.
\<close>

theorem ProcessOAM_message_shape:
  "(let ingest = fst (CreateKubeconfigs K Unmarshal txt (OAM_K8sConfigs oamReq) h);
        comps = map (\<lambda>a. fst (ParseApplicationComponent M a))
                  (filter (\<lambda>a. snd (ParseApplicationComponent M a) = None) (OamComps oamReq));
        config = fst (ParseApplicationConfiguration M (OamConfig oamReq));
        kc = OAM_K8sConfigs oamReq;
        r1 = HandleComponents M comps (DeleteOp oamReq) kc;
        r2 = HandleApplicationConfiguration M config (DeleteOp oamReq) kc;
        msg = message (ProcessOAM K Unmarshal txt M oamReq h)
    in (ingest \<noteq> None \<longrightarrow> msg = []) \<and>
       (ingest = None \<and> \<not> DeleteOp oamReq \<and> snd r1 \<noteq> None \<longrightarrow> msg = fst r1) \<and>
       (ingest = None \<and> DeleteOp oamReq \<and> snd r2 \<noteq> None \<longrightarrow> msg = fst r2) \<and>
       (ingest = None \<and> \<not> DeleteOp oamReq \<and> snd r1 = None \<longrightarrow>
          msg = fst r1 @ newline @ fst r2) \<and>
       (ingest = None \<and> DeleteOp oamReq \<and> snd r2 = None \<longrightarrow>
          msg = fst r1 @ newline @ fst r2))"
proof (cases "fst (CreateKubeconfigs K Unmarshal txt (OAM_K8sConfigs oamReq) h)")
  case None
  have pc: "fst (parse_components M (OamComps oamReq) [] []) =
      map (\<lambda>a. fst (ParseApplicationComponent M a))
        (filter (\<lambda>a. snd (ParseApplicationComponent M a) = None) (OamComps oamReq))"
    by (simp add: parse_components_comps)
  note m = ProcessOAM_message [OF None refl refl refl refl refl, of M, unfolded pc]
  show ?thesis
    by (cases "DeleteOp oamReq") (simp_all add: Let_def m None)
next
  case (Some err)
  show ?thesis
    using Some by (simp add: Let_def ProcessOAM_ingestion_failed [OF Some])
qed

text \<open>
  A failing ingestion, a failing first phase without and with the delete flag, and a
  failing second phase without and with it.
\<close>

theorem ProcessOAM_message_shape_witness:
  "message (ProcessOAM sample_handler sample_Unmarshal sample_text sample_oam
              ((sample_oam_request False [''web''] ''cfg'')\<lparr>OAM_K8sConfigs := [''bad'']\<rparr>)
              Map.empty) = [] \<and>
   message (ProcessOAM sample_handler sample_Unmarshal sample_text sample_oam
              (sample_oam_request False [''failing''] ''cfg'') Map.empty) =
     ''components failed'' \<and>
   message (ProcessOAM sample_handler sample_Unmarshal sample_text sample_oam
              (sample_oam_request True [''web''] ''failing'') Map.empty) =
     ''configuration failed'' \<and>
   message (ProcessOAM sample_handler sample_Unmarshal sample_text sample_oam
              (sample_oam_request False [''web''] ''failing'') Map.empty) =
     ''components done'' @ [CHR 0x0A] @ ''configuration failed'' \<and>
   message (ProcessOAM sample_handler sample_Unmarshal sample_text sample_oam
              (sample_oam_request True [''failing''] ''cfg'') Map.empty) =
     ''components failed'' @ [CHR 0x0A] @ ''configuration done''"
  using
    ProcessOAM_message_shape
      [of sample_handler sample_Unmarshal sample_text
          "(sample_oam_request False [''web''] ''cfg'')\<lparr>OAM_K8sConfigs := [''bad'']\<rparr>"
          Map.empty sample_oam]
    ProcessOAM_message_shape
      [of sample_handler sample_Unmarshal sample_text
          "sample_oam_request False [''failing''] ''cfg''" Map.empty sample_oam]
    ProcessOAM_message_shape
      [of sample_handler sample_Unmarshal sample_text
          "sample_oam_request True [''web''] ''failing''" Map.empty sample_oam]
    ProcessOAM_message_shape
      [of sample_handler sample_Unmarshal sample_text
          "sample_oam_request False [''web''] ''failing''" Map.empty sample_oam]
    ProcessOAM_message_shape
      [of sample_handler sample_Unmarshal sample_text
          "sample_oam_request True [''failing''] ''cfg''" Map.empty sample_oam]
  by (simp add: ProcessOAM_def CreateKubeconfigs_def merge_kubeconfig_def mergeErrors_def
        sample_handler_def sample_Unmarshal_def sample_oam_request_def sample_oam_def Let_def
        newline_def)

end
